theory Spec2Isabelle
  imports Main
begin

section \<open>Task model (pkg/rte/task.go)\<close>

text \<open>
  Go strings are byte sequences, so \<open>TaskType\<close>, \<open>TaskState\<close> and every textual field are
  \<^typ>\<open>string\<close> (a list of 8-bit characters). \<open>TTLSeconds\<close> is a Go \<open>int\<close>; it is
  multiplied only after the range check has bounded it by 3600, so no wrap-around can
  occur and it is modelled as \<^typ>\<open>int\<close>.

  \<open>Params\<close> is a Go map, that is a reference: the field holds \<open>nil\<close> or the address of a
  map object that lives in a store shared by every copy of the struct.
\<close>

type_synonym addr = nat

subsection \<open>\<open>time.Time\<close>\<close>

text \<open>
  A \<open>time.Time\<close> holds the wall clock as whole seconds since January 1 of year 1, 00:00
  UTC, in a signed 64-bit field, and nanoseconds below one second; optionally the reading
  of the process's monotonic clock, in nanoseconds, that \<open>time.Now\<close> attaches; and a
  location, of which the model keeps the offset east of UTC, in seconds, that it gives
  at this instant. A value with a monotonic reading keeps its wall seconds in a 33-bit
  field that counts from the year 1885.
\<close>

record Time =
  sec :: int
  nsec :: int
  mono :: "int option"
  offset :: int

definition maxInt64 :: int where "maxInt64 = 9223372036854775807"
definition minInt64 :: int where "minInt64 = - 9223372036854775808"

text \<open>\<open>time.Second\<close>, a \<open>Duration\<close> in nanoseconds.\<close>

definition second :: int where "second = 1000000000"

text \<open>January 1 of 1885 and of 1970, in seconds since January 1 of year 1.\<close>

definition wallToInternal :: int where "wallToInternal = 59453308800"
definition unixToInternal :: int where "unixToInternal = 62135596800"

text \<open>
  What every \<open>time.Time\<close> satisfies (the fields are not exported and every constructor
  normalises), and the wall-clock instant of a value in nanoseconds.
\<close>

definition wf_time :: "Time \<Rightarrow> bool" where
  "wf_time t = (0 \<le> nsec t \<and> nsec t < second \<and> minInt64 \<le> sec t \<and> sec t \<le> maxInt64)"

definition wall_ns :: "Time \<Rightarrow> int" where
  "wall_ns t = sec t * second + nsec t"

definition stripMono :: "Time \<Rightarrow> Time" where
  "stripMono t = t\<lparr>mono := None\<rparr>"

text \<open>\<open>t.UTC()\<close> sets the location to UTC and drops the monotonic reading.\<close>

definition UTC :: "Time \<Rightarrow> Time" where
  "UTC t = t\<lparr>mono := None, offset := 0\<rparr>"

text \<open>
  \<open>t.After(u)\<close> and \<open>t.Equal(u)\<close>: when both values carry a monotonic reading, those
  readings alone are compared; otherwise the wall clocks are, seconds first.
\<close>

definition After :: "Time \<Rightarrow> Time \<Rightarrow> bool" where
  "After t u =
    (case (mono t, mono u) of
       (Some a, Some b) \<Rightarrow> a > b
     | _ \<Rightarrow> sec t > sec u \<or> (sec t = sec u \<and> nsec t > nsec u))"

definition Equal :: "Time \<Rightarrow> Time \<Rightarrow> bool" where
  "Equal t u =
    (case (mono t, mono u) of
       (Some a, Some b) \<Rightarrow> a = b
     | _ \<Rightarrow> sec t = sec u \<and> nsec t = nsec u)"

text \<open>Go's integer division truncates towards zero.\<close>

definition quo :: "int \<Rightarrow> int \<Rightarrow> int" where
  "quo a b = (if 0 \<le> a then a div b else - ((- a) div b))"

definition rem :: "int \<Rightarrow> int \<Rightarrow> int" where
  "rem a b = a - b * quo a b"

text \<open>
  \<open>addSec\<close>: a value with a monotonic reading stays as it is while the new wall second
  fits the 33-bit field and loses the reading otherwise; the 64-bit sum saturates at the
  ends of its range instead of wrapping.
\<close>

definition saturating :: "Time \<Rightarrow> int \<Rightarrow> Time" where
  "saturating t d =
    t\<lparr>sec := (if sec t + d > maxInt64 then maxInt64
              else if sec t + d < minInt64 then - maxInt64
              else sec t + d)\<rparr>"

definition addSec :: "Time \<Rightarrow> int \<Rightarrow> Time" where
  "addSec t d =
    (case mono t of
       None \<Rightarrow> saturating t d
     | Some m \<Rightarrow>
         if 0 \<le> sec t - wallToInternal + d \<and> sec t - wallToInternal + d \<le> 2 ^ 33 - 1
         then t\<lparr>sec := sec t + d\<rparr>
         else saturating (stripMono t) d)"

text \<open>
  \<open>t.Add(d)\<close>: the nanoseconds are added with a carry of at most one second, the seconds
  by \<open>addSec\<close>; the monotonic reading, if still there, moves by \<open>d\<close> and is dropped if that
  leaves the 64-bit range.
\<close>

definition Add :: "Time \<Rightarrow> int \<Rightarrow> Time" where
  "Add t d =
    (let dsec = quo d second;
         n = nsec t + rem d second;
         dsec' = (if second \<le> n then dsec + 1 else if n < 0 then dsec - 1 else dsec);
         n' = (if second \<le> n then n - second else if n < 0 then n + second else n);
         t1 = addSec (t\<lparr>nsec := n'\<rparr>) dsec'
     in case mono t1 of
          None \<Rightarrow> t1
        | Some m \<Rightarrow>
            if m + d > maxInt64 \<or> m + d < minInt64 then stripMono t1
            else t1\<lparr>mono := Some (m + d)\<rparr>)"

subsection \<open>Tasks and their validation\<close>

definition TaskSimulateLogin :: string where "TaskSimulateLogin = ''simulate_login''"
definition TaskSimulateBeacon :: string where "TaskSimulateBeacon = ''simulate_beacon''"
definition TaskInventory :: string where "TaskInventory = ''inventory''"
definition TaskEmitSynthetic :: string where "TaskEmitSynthetic = ''emit_synthetic''"

definition StatePending :: string where "StatePending = ''pending''"
definition StateExecuting :: string where "StateExecuting = ''executing''"
definition StateCancelled :: string where "StateCancelled = ''cancelled''"
definition StateCompleted :: string where "StateCompleted = ''completed''"
definition StateFailed :: string where "StateFailed = ''failed''"

definition maxTTLSeconds :: int where "maxTTLSeconds = 3600"
definition minTTLSeconds :: int where "minTTLSeconds = 1"

definition allowedTaskTypes :: "string list" where
  "allowedTaskTypes = [TaskSimulateLogin, TaskSimulateBeacon, TaskInventory, TaskEmitSynthetic]"

definition validTaskStates :: "string list" where
  "validTaskStates = [StatePending, StateExecuting, StateCancelled, StateCompleted, StateFailed]"

record Task =
  ID :: string
  Engagement :: string
  Type :: string
  CreatedAt :: Time
  TTLSeconds :: int
  Operator :: string
  ApprovedBy :: string
  State :: string
  CancelToken :: string
  Params :: "addr option"

text \<open>
  The errors of \<open>Validate\<close>, one constructor per message of the source, carrying the values
  the message is formatted from (the expiry and \<open>now\<close>, both in UTC).
\<close>

datatype ValidationError =
    TaskIsNil
  | TaskIDRequired
  | EngagementRequired
  | OperatorRequired
  | ApprovedByRequired
  | UnsupportedTaskType string
  | TTLOutOfRange int
  | InvalidTaskState string
  | TaskExpired Time Time

text \<open>\<open>t.CreatedAt.Add(time.Duration(t.TTLSeconds) * time.Second)\<close>.\<close>

definition expiry :: "Task \<Rightarrow> Time" where
  "expiry t = Add (CreatedAt t) (TTLSeconds t * second)"

text \<open>
  \<open>func (t *Task) Validate(now time.Time) error\<close>. The receiver is a pointer, so it is an
  option; the result is \<open>None\<close> for Go's \<open>nil\<close> error.
\<close>

fun Validate :: "Task option \<Rightarrow> Time \<Rightarrow> ValidationError option" where
  "Validate None now = Some TaskIsNil"
| "Validate (Some t) now =
    (if ID t = [] then Some TaskIDRequired
     else if Engagement t = [] then Some EngagementRequired
     else if Operator t = [] then Some OperatorRequired
     else if ApprovedBy t = [] then Some ApprovedByRequired
     else if Type t \<notin> set allowedTaskTypes then Some (UnsupportedTaskType (Type t))
     else if TTLSeconds t < minTTLSeconds \<or> TTLSeconds t > maxTTLSeconds
       then Some (TTLOutOfRange (TTLSeconds t))
     else if State t \<notin> set validTaskStates then Some (InvalidTaskState (State t))
     else if After now (expiry t) \<or> Equal now (expiry t)
       then Some (TaskExpired (UTC (expiry t)) (UTC now))
     else None)"

section \<open>The store of map objects\<close>

text \<open>
  A Go map object is kept as its entries in increasing (bytewise) key order, each key
  once. That is the order in which \<open>encoding/json\<close> writes a map; nothing else in the
  package iterates over one. The store is the list of the allocated map objects, an
  address being an index into it.
\<close>

type_synonym gomap = "(string \<times> string) list"
type_synonym heap = "gomap list"

definition byte :: "char \<Rightarrow> nat" where
  "byte c = of_char c"

fun str_less :: "string \<Rightarrow> string \<Rightarrow> bool" where
  "str_less [] [] = False"
| "str_less [] (y # ys) = True"
| "str_less (x # xs) [] = False"
| "str_less (x # xs) (y # ys) = (byte x < byte y \<or> (x = y \<and> str_less xs ys))"

text \<open>The assignment \<open>m[k] = v\<close>.\<close>

fun map_assign :: "string \<Rightarrow> string \<Rightarrow> gomap \<Rightarrow> gomap" where
  "map_assign k v [] = [(k, v)]"
| "map_assign k v ((k', v') # m) =
    (if k = k' then (k, v) # m
     else if str_less k k' then (k, v) # (k', v') # m
     else (k', v') # map_assign k v m)"

definition heap_get :: "heap \<Rightarrow> addr \<Rightarrow> gomap option" where
  "heap_get h a = (if a < length h then Some (h ! a) else None)"

definition heap_alloc :: "heap \<Rightarrow> gomap \<Rightarrow> addr \<times> heap" where
  "heap_alloc h m = (length h, h @ [m])"

text \<open>
  \<open>p[k] = v\<close> through a map reference \<open>p\<close>. Go panics on a \<open>nil\<close> map; an address always
  denotes an allocated object.
\<close>

definition heap_assign :: "heap \<Rightarrow> addr \<Rightarrow> string \<Rightarrow> string \<Rightarrow> heap" where
  "heap_assign h a k v = (if a < length h then h[a := map_assign k v (h ! a)] else h)"

text \<open>What a task's \<open>Params\<close> field denotes in a store: \<open>None\<close> for a \<open>nil\<close> map.\<close>

definition params_of :: "heap \<Rightarrow> Task \<Rightarrow> gomap option" where
  "params_of h t = (case Params t of None \<Rightarrow> None | Some a \<Rightarrow> heap_get h a)"

section \<open>The canonical payload: \<open>json.Marshal\<close> on the structs of the package\<close>

text \<open>
  \<open>encoding/json\<close> and \<open>time\<close> are libraries, followed here as they are in Go 1.22, the
  release that the README requires; what the package fixes are the struct tags: member
  names, their order, and \<open>omitempty\<close> on \<open>cancel_token\<close> and \<open>params\<close>. A document is
  kept as a tree. Its string leaves and member names hold the characters that the
  encoder writes between the quotes, so that two values have the same tree exactly when
  the encoder writes the same bytes for them. The RFC 3339 text of a time is kept as
  what it shows: the date and time of day in the value's location (as seconds since
  January 1 of year 1), the nanoseconds, and the zone, \<open>Z\<close> (\<open>None\<close>) or a signed number of
  minutes. The base64 text of a byte slice is kept as the bytes (a \<open>nil\<close> slice and an
  empty one both have length 0 and are not told apart).
\<close>

datatype json =
    JNull
  | JNumber int
  | JString string
  | JTime int int "int option"
  | JBytes string
  | JObject "(string \<times> json) list"

datatype json_error =
    YearOutOfRange
  | ZoneHourOutOfRange
  | UnmarshalTypeError string
  | SyntaxError

subsection \<open>UTF-8\<close>

definition in_range :: "char \<Rightarrow> nat \<Rightarrow> nat \<Rightarrow> bool" where
  "in_range c lo hi = (lo \<le> byte c \<and> byte c \<le> hi)"

text \<open>
  \<open>utf8.DecodeRuneInString\<close>, as far as the encoder and decoder use it: the width of the
  well-formed sequence at the head of the string, 0 when there is none (Go then yields
  \<open>RuneError\<close> with width 1).
\<close>

definition utf8_width :: "string \<Rightarrow> nat" where
  "utf8_width s =
    (case s of
       [] \<Rightarrow> 0
     | b0 # r \<Rightarrow>
        (let x = byte b0 in
         if x < 0x80 then 1
         else if 0xC2 \<le> x \<and> x \<le> 0xDF then
           (case r of b1 # _ \<Rightarrow> if in_range b1 0x80 0xBF then 2 else 0 | _ \<Rightarrow> 0)
         else if 0xE0 \<le> x \<and> x \<le> 0xEF then
           (case r of
              b1 # b2 # _ \<Rightarrow>
                if in_range b1 (if x = 0xE0 then 0xA0 else 0x80) (if x = 0xED then 0x9F else 0xBF)
                   \<and> in_range b2 0x80 0xBF
                then 3 else 0
            | _ \<Rightarrow> 0)
         else if 0xF0 \<le> x \<and> x \<le> 0xF4 then
           (case r of
              b1 # b2 # b3 # _ \<Rightarrow>
                if in_range b1 (if x = 0xF0 then 0x90 else 0x80) (if x = 0xF4 then 0x8F else 0xBF)
                   \<and> in_range b2 0x80 0xBF \<and> in_range b3 0x80 0xBF
                then 4 else 0
            | _ \<Rightarrow> 0)
         else 0))"

text \<open>\<open>utf8.EncodeRune\<close> on a code point that is no surrogate and at most \<open>0x10FFFF\<close>.\<close>

definition utf8_encode :: "nat \<Rightarrow> string" where
  "utf8_encode n =
    (if n < 0x80 then [char_of n]
     else if n < 0x800 then [char_of (0xC0 + n div 0x40), char_of (0x80 + n mod 0x40)]
     else if n < 0x10000 then
       [char_of (0xE0 + n div 0x1000), char_of (0x80 + n div 0x40 mod 0x40),
        char_of (0x80 + n mod 0x40)]
     else
       [char_of (0xF0 + n div 0x40000), char_of (0x80 + n div 0x1000 mod 0x40),
        char_of (0x80 + n div 0x40 mod 0x40), char_of (0x80 + n mod 0x40)])"

definition backslash :: char where "backslash = CHR 0x5C"
definition dquote :: char where "dquote = CHR 0x22"

text \<open>The replacement character U+FFFD in UTF-8.\<close>

definition replacement :: string where
  "replacement = [CHR 0xEF, CHR 0xBF, CHR 0xBD]"

subsection \<open>The string encoder\<close>

definition hex :: "nat \<Rightarrow> char" where
  "hex n = ''0123456789abcdef'' ! n"

text \<open>
  \<open>htmlSafeSet\<close>: the ASCII bytes written as they are, namely \<open>0x20\<close> to \<open>0x7F\<close> except the
  double quote, the backslash, and the three that HTML escaping adds (\<open><\<close>, \<open>>\<close>, \<open>&\<close>;
  \<open>json.Marshal\<close> always escapes HTML).
\<close>

definition htmlSafe :: "char \<Rightarrow> bool" where
  "htmlSafe b = (0x20 \<le> byte b \<and> byte b < 0x80
                 \<and> b \<notin> {dquote, backslash, CHR ''<'', CHR ''>'', CHR ''&''})"

text \<open>What the encoder writes for one ASCII byte.\<close>

definition escape_ascii :: "char \<Rightarrow> string" where
  "escape_ascii b =
    (if htmlSafe b then [b]
     else if b = backslash \<or> b = dquote then [backslash, b]
     else if byte b = 0x08 then [backslash, CHR ''b'']
     else if byte b = 0x0C then [backslash, CHR ''f'']
     else if byte b = 0x0A then [backslash, CHR ''n'']
     else if byte b = 0x0D then [backslash, CHR ''r'']
     else if byte b = 0x09 then [backslash, CHR ''t'']
     else [backslash, CHR ''u'', CHR ''0'', CHR ''0'', hex (byte b div 16), hex (byte b mod 16)])"

text \<open>
  \<open>appendString\<close> of \<open>encoding/json\<close>, without the two enclosing quotes ("String values
  encode as JSON strings coerced to valid UTF-8, replacing invalid bytes with the Unicode
  replacement rune"). A byte that starts no well-formed UTF-8 sequence is written as the
  six-character escape of U+FFFD (backslash, u, f, f, f, d); U+2028 and U+2029 are
  written as escapes; every other non-ASCII character is copied as it is.
\<close>

fun appendString :: "string \<Rightarrow> string" where
  "appendString [] = []"
| "appendString (b # bs) =
    (if byte b < 0x80 then escape_ascii b @ appendString bs
     else if utf8_width (b # bs) = 0 then
       [backslash, CHR ''u'', CHR ''f'', CHR ''f'', CHR ''f'', CHR ''d''] @ appendString bs
     else if take 3 (b # bs) = [CHR 0xE2, CHR 0x80, CHR 0xA8] then
       [backslash, CHR ''u'', CHR ''2'', CHR ''0'', CHR ''2'', CHR ''8''] @ appendString (drop 2 bs)
     else if take 3 (b # bs) = [CHR 0xE2, CHR 0x80, CHR 0xA9] then
       [backslash, CHR ''u'', CHR ''2'', CHR ''0'', CHR ''2'', CHR ''9''] @ appendString (drop 2 bs)
     else take (utf8_width (b # bs)) (b # bs) @ appendString (drop (utf8_width (b # bs) - 1) bs))"

text \<open>\<open>json.Marshal\<close> on a \<open>map[string]string\<close>: the entries in key order.\<close>

definition marshalParams :: "gomap \<Rightarrow> json" where
  "marshalParams m = JObject (map (\<lambda>e. (appendString (fst e), JString (appendString (snd e)))) m)"

text \<open>
  \<open>Time.MarshalJSON\<close> writes the time in the value's own location and reports an error
  when the year there is outside \<open>[0,9999]\<close>, or when the zone is not \<open>Z\<close> and its hour is
  outside \<open>[0,23]\<close>. Year 0 begins 366 days before January 1 of year 1 and year 10000
  begins 3652059 days after it. The zone is \<open>Z\<close> for the offset 0 and the offset in whole
  minutes otherwise, seconds cut off. (Go adds seconds and offset in 64 bits; the sum can
  wrap only for an offset of many times 24 hours, which is refused in either case.)
\<close>

definition year0 :: int where "year0 = - 31622400"
definition year10000 :: int where "year10000 = 315537897600"

definition time_MarshalJSON :: "Time \<Rightarrow> json_error + json" where
  "time_MarshalJSON t =
    (if \<not> (year0 \<le> sec t + offset t \<and> sec t + offset t < year10000) then Inl YearOutOfRange
     else if offset t \<noteq> 0 \<and> 24 \<le> \<bar>quo (offset t) 60\<bar> div 60 then Inl ZoneHourOutOfRange
     else Inr (JTime (sec t + offset t) (nsec t)
                 (if offset t = 0 then None else Some (quo (offset t) 60))))"

text \<open>
  \<open>Time.UnmarshalJSON\<close> on a text that the encoder wrote: the offset is the zone's, the
  instant is the shown date and time less the offset, and there is no monotonic reading.
\<close>

definition time_UnmarshalJSON :: "int \<Rightarrow> int \<Rightarrow> int option \<Rightarrow> Time" where
  "time_UnmarshalJSON shown n zone =
    (let off = (case zone of None \<Rightarrow> 0 | Some z \<Rightarrow> z * 60)
     in \<lparr>sec = shown - off, nsec = n, mono = None, offset = off\<rparr>)"

text \<open>\<open>json.Marshal(task)\<close>, by the tags of \<open>Task\<close>.\<close>

definition marshalTask :: "heap \<Rightarrow> Task \<Rightarrow> json_error + json" where
  "marshalTask h t =
    (case time_MarshalJSON (CreatedAt t) of
       Inl e \<Rightarrow> Inl e
     | Inr created \<Rightarrow>
         Inr (JObject
           ([(''id'', JString (appendString (ID t))),
             (''engagement'', JString (appendString (Engagement t))),
             (''type'', JString (appendString (Type t))),
             (''created_at'', created),
             (''ttl_seconds'', JNumber (TTLSeconds t)),
             (''operator'', JString (appendString (Operator t))),
             (''approved_by'', JString (appendString (ApprovedBy t))),
             (''state'', JString (appendString (State t)))]
            @ (if CancelToken t = [] then []
               else [(''cancel_token'', JString (appendString (CancelToken t)))])
            @ (case params_of h t of
                 None \<Rightarrow> []
               | Some m \<Rightarrow> if m = [] then [] else [(''params'', marshalParams m)]))))"

record SignedTask =
  Task :: Task
  PublicKey :: string
  Signature :: string

text \<open>\<open>json.Marshal(st)\<close>, by the tags of \<open>SignedTask\<close>.\<close>

definition marshalSignedTask :: "heap \<Rightarrow> SignedTask \<Rightarrow> json_error + json" where
  "marshalSignedTask h st =
    (case marshalTask h (Task st) of
       Inl e \<Rightarrow> Inl e
     | Inr j \<Rightarrow>
         Inr (JObject [(''task'', j), (''public_key'', JBytes (PublicKey st)),
                       (''signature'', JBytes (Signature st))]))"

subsection \<open>The decoder\<close>

definition hexval :: "char \<Rightarrow> nat option" where
  "hexval c =
    (if in_range c 0x30 0x39 then Some (byte c - 0x30)
     else if in_range c 0x61 0x66 then Some (byte c - 0x61 + 10)
     else if in_range c 0x41 0x46 then Some (byte c - 0x41 + 10)
     else None)"

text \<open>\<open>getu4\<close>: the number written by a \<open>u\<close> escape at the head of the string.\<close>

definition getu4 :: "string \<Rightarrow> nat option" where
  "getu4 s =
    (case s of
       b # u # c1 # c2 # c3 # c4 # _ \<Rightarrow>
         if b = backslash \<and> u = CHR ''u'' then
           (case (hexval c1, hexval c2, hexval c3, hexval c4) of
              (Some d1, Some d2, Some d3, Some d4) \<Rightarrow> Some (((d1 * 16 + d2) * 16 + d3) * 16 + d4)
            | _ \<Rightarrow> None)
         else None
     | _ \<Rightarrow> None)"

definition isSurrogate :: "nat \<Rightarrow> bool" where
  "isSurrogate n = (0xD800 \<le> n \<and> n < 0xE000)"

text \<open>
  One round of the loop of \<open>unquoteBytes\<close> on the text between the quotes: the bytes it
  writes and the text left, or \<open>None\<close> where the decoder gives up. The escapes are those
  that the decoder's scanner lets through (it refuses a backslash before an apostrophe,
  which \<open>unquoteBytes\<close> alone would take).
\<close>

definition unquote_step :: "string \<Rightarrow> (string \<times> string) option" where
  "unquote_step s =
    (case s of
       [] \<Rightarrow> None
     | c # cs \<Rightarrow>
         if c = backslash then
           (case cs of
              [] \<Rightarrow> None
            | e # r \<Rightarrow>
                if e = dquote \<or> e = backslash \<or> e = CHR ''/'' then Some ([e], r)
                else if e = CHR ''b'' then Some ([CHR 0x08], r)
                else if e = CHR ''f'' then Some ([CHR 0x0C], r)
                else if e = CHR ''n'' then Some ([CHR 0x0A], r)
                else if e = CHR ''r'' then Some ([CHR 0x0D], r)
                else if e = CHR ''t'' then Some ([CHR 0x09], r)
                else if e = CHR ''u'' then
                  (case getu4 s of
                     None \<Rightarrow> None
                   | Some rr \<Rightarrow>
                       if isSurrogate rr then
                         (case getu4 (drop 6 s) of
                            Some rr1 \<Rightarrow>
                              if rr < 0xDC00 \<and> 0xDC00 \<le> rr1 \<and> rr1 < 0xE000
                              then Some (utf8_encode (0x10000 + (rr - 0xD800) * 0x400 + (rr1 - 0xDC00)),
                                         drop 12 s)
                              else Some (replacement, drop 6 s)
                          | None \<Rightarrow> Some (replacement, drop 6 s))
                       else Some (utf8_encode rr, drop 6 s))
                else None)
         else if c = dquote \<or> byte c < 0x20 then None
         else if byte c < 0x80 then Some ([c], cs)
         else if utf8_width s = 0 then Some (replacement, cs)
         else Some (take (utf8_width s) s, drop (utf8_width s) s))"

lemma unquote_step_shorter:
  "unquote_step s = Some (out, rest) \<Longrightarrow> length rest < length s"
  by (auto simp: unquote_step_def split: list.splits if_splits option.splits)

text \<open>\<open>unquote\<close>: the Go string that a JSON string literal denotes.\<close>

function unquote :: "string \<Rightarrow> string option" where
  "unquote s =
    (if s = [] then Some []
     else (case unquote_step s of
             None \<Rightarrow> None
           | Some (out, rest) \<Rightarrow> map_option ((@) out) (unquote rest)))"
  by pat_completeness auto
termination
  by (relation "measure length") (auto dest: unquote_step_shorter)

definition as_string :: "json \<Rightarrow> json_error + string" where
  "as_string v =
    (case v of
       JString lit \<Rightarrow> (case unquote lit of Some s \<Rightarrow> Inr s | None \<Rightarrow> Inl SyntaxError)
     | _ \<Rightarrow> Inl (UnmarshalTypeError ''string''))"

text \<open>
  Decoding an object into a map: each member in turn is stored under its decoded name, so
  a later member replaces an earlier one of the same name. \<open>null\<close> stores the zero value.
\<close>

fun unmarshalParams :: "(string \<times> json) list \<Rightarrow> gomap \<Rightarrow> json_error + gomap" where
  "unmarshalParams [] m = Inr m"
| "unmarshalParams ((k, v) # ms) m =
    (case unquote k of
       None \<Rightarrow> Inl SyntaxError
     | Some name \<Rightarrow>
         if v = JNull then unmarshalParams ms (map_assign name [] m)
         else (case as_string v of
                 Inl e \<Rightarrow> Inl e
               | Inr s \<Rightarrow> unmarshalParams ms (map_assign name s m)))"

text \<open>
  How the decoder finds the field of a member: by the exact name, and failing that by
  the folded name. \<open>foldName\<close> maps the ASCII letters to upper case and every other
  character to the least of its simple case folds; the only characters outside ASCII
  that fold to an ASCII letter are the Kelvin sign U+212A (to \<open>K\<close>) and the long s U+017F
  (to \<open>S\<close>). Every field name here is ASCII and no two fold alike, so the folded name is
  kept as far as it decides equality with a field name: bytes of other characters stay.
\<close>

fun foldName :: "string \<Rightarrow> nat list" where
  "foldName [] = []"
| "foldName (c # cs) =
    (if take 3 (c # cs) = [CHR 0xE2, CHR 0x84, CHR 0xAA] then 0x4B # foldName (drop 2 cs)
     else if take 2 (c # cs) = [CHR 0xC5, CHR 0xBF] then 0x53 # foldName (drop 1 cs)
     else if in_range c 0x61 0x7A then (byte c - 0x20) # foldName cs
     else byte c # foldName cs)"

definition field_match :: "string \<Rightarrow> string \<Rightarrow> bool" where
  "field_match key name = (key = name \<or> foldName key = foldName name)"

text \<open>
  Decoding one member of an object into a \<open>Task\<close>. A member that matches no field is
  skipped; \<open>null\<close> leaves a string, number or time as it is and sets a map to \<open>nil\<close>; a
  number that does not fit the 64-bit \<open>int\<close> is a type error. An object decoded into a
  \<open>nil\<close> map allocates a new map object; into an existing map it adds to it.
\<close>

definition unmarshalTaskMember :: "heap \<times> Task \<Rightarrow> string \<times> json \<Rightarrow> json_error + heap \<times> Task" where
  "unmarshalTaskMember ht kv =
    (let h = fst ht; t = snd ht; v = snd kv in
     case unquote (fst kv) of
       None \<Rightarrow> Inl SyntaxError
     | Some key \<Rightarrow>
         if field_match key ''params'' then
           (case v of
              JNull \<Rightarrow> Inr (h, t\<lparr>Params := None\<rparr>)
            | JObject ms \<Rightarrow>
                (case Params t of
                   None \<Rightarrow>
                     (case unmarshalParams ms [] of
                        Inl e \<Rightarrow> Inl e
                      | Inr m \<Rightarrow> Inr (snd (heap_alloc h m), t\<lparr>Params := Some (fst (heap_alloc h m))\<rparr>))
                 | Some a \<Rightarrow>
                     (case heap_get h a of
                        None \<Rightarrow> Inl (UnmarshalTypeError ''map'')
                      | Some m0 \<Rightarrow>
                          (case unmarshalParams ms m0 of
                             Inl e \<Rightarrow> Inl e
                           | Inr m \<Rightarrow> Inr (h[a := m], t))))
            | _ \<Rightarrow> Inl (UnmarshalTypeError ''map''))
         else if v = JNull then Inr (h, t)
         else if field_match key ''created_at'' then
           (case v of JTime shown n zone \<Rightarrow> Inr (h, t\<lparr>CreatedAt := time_UnmarshalJSON shown n zone\<rparr>)
                    | _ \<Rightarrow> Inl (UnmarshalTypeError ''time''))
         else if field_match key ''ttl_seconds'' then
           (case v of
              JNumber n \<Rightarrow>
                if minInt64 \<le> n \<and> n \<le> maxInt64 then Inr (h, t\<lparr>TTLSeconds := n\<rparr>)
                else Inl (UnmarshalTypeError ''int'')
            | _ \<Rightarrow> Inl (UnmarshalTypeError ''int''))
         else if field_match key ''id'' \<or> field_match key ''engagement'' \<or> field_match key ''type''
                 \<or> field_match key ''operator'' \<or> field_match key ''approved_by''
                 \<or> field_match key ''state'' \<or> field_match key ''cancel_token'' then
           (case as_string v of
              Inl e \<Rightarrow> Inl e
            | Inr s \<Rightarrow>
                Inr (h,
                  if field_match key ''id'' then t\<lparr>ID := s\<rparr>
                  else if field_match key ''engagement'' then t\<lparr>Engagement := s\<rparr>
                  else if field_match key ''type'' then t\<lparr>Type := s\<rparr>
                  else if field_match key ''operator'' then t\<lparr>Operator := s\<rparr>
                  else if field_match key ''approved_by'' then t\<lparr>ApprovedBy := s\<rparr>
                  else if field_match key ''state'' then t\<lparr>State := s\<rparr>
                  else t\<lparr>CancelToken := s\<rparr>))
         else Inr (h, t))"

fun unmarshalTaskMembers :: "heap \<times> Task \<Rightarrow> (string \<times> json) list \<Rightarrow> json_error + heap \<times> Task" where
  "unmarshalTaskMembers ht [] = Inr ht"
| "unmarshalTaskMembers ht (kv # ms) =
    (case unmarshalTaskMember ht kv of
       Inl e \<Rightarrow> Inl e
     | Inr ht' \<Rightarrow> unmarshalTaskMembers ht' ms)"

definition unmarshalTask :: "heap \<times> Task \<Rightarrow> json \<Rightarrow> json_error + heap \<times> Task" where
  "unmarshalTask ht v =
    (case v of
       JNull \<Rightarrow> Inr ht
     | JObject ms \<Rightarrow> unmarshalTaskMembers ht ms
     | _ \<Rightarrow> Inl (UnmarshalTypeError ''Task''))"

definition as_bytes :: "json \<Rightarrow> json_error + string" where
  "as_bytes v =
    (case v of
       JNull \<Rightarrow> Inr []
     | JBytes b \<Rightarrow> Inr b
     | _ \<Rightarrow> Inl (UnmarshalTypeError ''[]byte''))"

definition unmarshalSignedTaskMember ::
    "heap \<times> SignedTask \<Rightarrow> string \<times> json \<Rightarrow> json_error + heap \<times> SignedTask" where
  "unmarshalSignedTaskMember hs kv =
    (let h = fst hs; st = snd hs; v = snd kv in
     case unquote (fst kv) of
       None \<Rightarrow> Inl SyntaxError
     | Some key \<Rightarrow>
         if field_match key ''task'' then
           (case unmarshalTask (h, Task st) v of
              Inl e \<Rightarrow> Inl e
            | Inr ht \<Rightarrow> Inr (fst ht, st\<lparr>Task := snd ht\<rparr>))
         else if field_match key ''public_key'' then
           (case as_bytes v of
              Inl e \<Rightarrow> Inl e
            | Inr b \<Rightarrow> Inr (h, st\<lparr>PublicKey := b\<rparr>))
         else if field_match key ''signature'' then
           (case as_bytes v of
              Inl e \<Rightarrow> Inl e
            | Inr b \<Rightarrow> Inr (h, st\<lparr>Signature := b\<rparr>))
         else Inr (h, st))"

fun unmarshalSignedTaskMembers ::
    "heap \<times> SignedTask \<Rightarrow> (string \<times> json) list \<Rightarrow> json_error + heap \<times> SignedTask" where
  "unmarshalSignedTaskMembers hs [] = Inr hs"
| "unmarshalSignedTaskMembers hs (kv # ms) =
    (case unmarshalSignedTaskMember hs kv of
       Inl e \<Rightarrow> Inl e
     | Inr hs' \<Rightarrow> unmarshalSignedTaskMembers hs' ms)"

text \<open>The zero \<open>time.Time\<close> is January 1 of year 1, 00:00 UTC.\<close>

definition zeroTime :: Time where
  "zeroTime = \<lparr>sec = 0, nsec = 0, mono = None, offset = 0\<rparr>"

definition zeroTask :: Task where
  "zeroTask = \<lparr>ID = [], Engagement = [], Type = [], CreatedAt = zeroTime, TTLSeconds = 0,
               Operator = [], ApprovedBy = [], State = [], CancelToken = [], Params = None\<rparr>"

definition zeroSignedTask :: SignedTask where
  "zeroSignedTask = \<lparr>Task = zeroTask, PublicKey = [], Signature = []\<rparr>"

text \<open>
  \<open>var st2 SignedTask; json.Unmarshal(data, &st2)\<close>, as in \<open>TestMarshalUnmarshalConsistency\<close>:
  the document is decoded into a zero value. The result is the store after the decoder's
  allocations, and the value.
\<close>

definition unmarshalSignedTask :: "heap \<Rightarrow> json \<Rightarrow> json_error + heap \<times> SignedTask" where
  "unmarshalSignedTask h v =
    (case v of
       JNull \<Rightarrow> Inr (h, zeroSignedTask)
     | JObject ms \<Rightarrow> unmarshalSignedTaskMembers (h, zeroSignedTask) ms
     | _ \<Rightarrow> Inl (UnmarshalTypeError ''SignedTask''))"

section \<open>Attestation: \<open>SignTask\<close>, \<open>VerifyTask\<close>, \<open>GenerateKeyPair\<close>\<close>

text \<open>
  \<open>crypto/ed25519\<close> is an external collaborator and is a parameter of the model. \<open>Sign\<close>
  and \<open>Verify\<close> stand for the primitive applied to the bytes of a document. A private key
  is the 32-byte seed followed by the 32-byte public key.
\<close>

record ed25519 =
  Sign :: "string \<Rightarrow> json \<Rightarrow> string"
  Verify :: "string \<Rightarrow> json \<Rightarrow> string \<Rightarrow> bool"
  NewKeyFromSeed :: "string \<Rightarrow> string"

definition PrivateKeySize :: nat where "PrivateKeySize = 64"
definition PublicKeySize :: nat where "PublicKeySize = 32"
definition SignatureSize :: nat where "SignatureSize = 64"
definition SeedSize :: nat where "SeedSize = 32"

datatype AttestError =
    InvalidPrivateKeySize
  | InvalidPublicKeySize
  | InvalidSignatureSize
  | TaskValidationFailed ValidationError
  | MarshalTaskFailed json_error
  | SignedTaskIsNil
  | SignatureVerificationFailed
  | Invalid ValidationError
  | EntropyReadFailed

text \<open>
  \<open>SignTask\<close> and \<open>VerifyTask\<close> call \<open>time.Now().UTC()\<close> themselves. What \<open>time.Now()\<close>
  returns to the call is the argument \<open>clock\<close>; it is no parameter of the Go function.
  Both read the map that \<open>Params\<close> refers to from the store \<open>h\<close>. \<open>SignTask\<close>
  receives the task by value and stores that struct copy: the copy holds the same
  \<open>Params\<close> reference as the caller's value.
\<close>

definition SignTask ::
    "ed25519 \<Rightarrow> heap \<Rightarrow> Time \<Rightarrow> Task \<Rightarrow> string \<Rightarrow> string \<Rightarrow> AttestError + SignedTask" where
  "SignTask E h clock task priv pub =
    (if length priv \<noteq> PrivateKeySize then Inl InvalidPrivateKeySize
     else if length pub \<noteq> PublicKeySize then Inl InvalidPublicKeySize
     else (case Validate (Some task) (UTC clock) of
             Some e \<Rightarrow> Inl (TaskValidationFailed e)
           | None \<Rightarrow>
               (case marshalTask h task of
                  Inl e \<Rightarrow> Inl (MarshalTaskFailed e)
                | Inr payload \<Rightarrow>
                    Inr \<lparr>Task = task, PublicKey = pub, Signature = Sign E priv payload\<rparr>)))"

definition VerifyTask ::
    "ed25519 \<Rightarrow> heap \<Rightarrow> Time \<Rightarrow> SignedTask option \<Rightarrow> AttestError option" where
  "VerifyTask E h clock sp =
    (case sp of
       None \<Rightarrow> Some SignedTaskIsNil
     | Some st \<Rightarrow>
         if length (PublicKey st) \<noteq> PublicKeySize then Some InvalidPublicKeySize
         else if length (Signature st) \<noteq> SignatureSize then Some InvalidSignatureSize
         else (case marshalTask h (Task st) of
                 Inl e \<Rightarrow> Some (MarshalTaskFailed e)
               | Inr payload \<Rightarrow>
                   if \<not> Verify E (PublicKey st) payload (Signature st)
                   then Some SignatureVerificationFailed
                   else map_option Invalid (Validate (Some (Task st)) (UTC clock))))"

text \<open>
  \<open>GenerateKeyPair\<close> is \<open>ed25519.GenerateKey(rand.Reader)\<close>: it reads a seed from the
  process-wide entropy source, of which \<open>entropy\<close> is what a read delivers, and derives
  the key pair from it.
\<close>

definition GenerateKeyPair :: "ed25519 \<Rightarrow> string \<Rightarrow> AttestError + string \<times> string" where
  "GenerateKeyPair E entropy =
    (if length entropy < SeedSize then Inl EntropyReadFailed
     else (let priv = NewKeyFromSeed E (take SeedSize entropy)
           in Inr (take PublicKeySize (drop SeedSize priv), priv)))"

subsection \<open>A stand-in primitive\<close>

text \<open>
  To run the model on concrete inputs the primitive has to be instantiated. The stand-in
  keeps the shape of ed25519 (32-byte seeds and public keys, 64-byte private keys and
  signatures, a signature that the matching public key accepts) with a fingerprint of
  the document in place of the curve arithmetic. It is used for concrete runs only;
  every general theorem is about an arbitrary primitive.
\<close>

fun doc_weight :: "json \<Rightarrow> nat" where
  "doc_weight JNull = 0"
| "doc_weight (JNumber n) = nat \<bar>n\<bar>"
| "doc_weight (JString s) = length s"
| "doc_weight (JTime shown n zone) =
     nat \<bar>shown\<bar> + nat \<bar>n\<bar> + (case zone of None \<Rightarrow> 0 | Some z \<Rightarrow> 1 + nat \<bar>z\<bar>)"
| "doc_weight (JBytes b) = length b"
| "doc_weight (JObject ms) = sum_list (map (\<lambda>m. length (fst m) + doc_weight (snd m)) ms)"

definition fingerprint :: "json \<Rightarrow> string" where
  "fingerprint d = replicate 32 (hex (doc_weight d mod 16))"

definition standin :: ed25519 where
  "standin =
    \<lparr>Sign = (\<lambda>priv d. drop 32 priv @ fingerprint d),
     Verify = (\<lambda>pub d sig. sig = pub @ fingerprint d),
     NewKeyFromSeed = (\<lambda>seed. seed @ rev seed)\<rparr>"

text \<open>
  What a caller holds after \<open>st, err := SignTask(...)\<close>: the pointer is \<open>nil\<close> when an error
  is returned.
\<close>

definition signed_ptr :: "AttestError + SignedTask \<Rightarrow> SignedTask option" where
  "signed_ptr r = (case r of Inl e \<Rightarrow> None | Inr st \<Rightarrow> Some st)"

section \<open>Audit chain\<close>

text \<open>
  Modelled from the spec: the audit logger (\<open>python/rte_a_audit/audit_logger.py\<close>) is not
  among the sources; \<open>AuditRecord\<close>, \<open>append\<close> and \<open>verifyChain\<close> follow sections 3, 4.3 and 6
  of the specification. The digest function, the sentinel digest and the text of a
  sequence number inside the digest input are left open there and are parameters. The
  timestamp is the clock reading taken by \<open>append\<close>; the result payload is given in its
  canonical bytes.
\<close>

record AuditRecord =
  sequence :: nat
  timestamp :: string
  operator_id :: string
  engagement_id :: string
  action :: string
  result_hash :: string
  authorization :: string
  task_id :: string
  prev_hash :: string
  chain_hash :: string

text \<open>
  Modelled from the spec: what the specification leaves open about the chain, the digest
  function and the sentinel (section 9) and how a sequence number is written.
\<close>

record chain_scheme =
  Digest :: "string \<Rightarrow> string"
  sentinel :: string
  seq_text :: "nat \<Rightarrow> string"

text \<open>
  Modelled from the spec: the digest input of section 3, the previous chain hash followed
  by sequence, timestamp, operator, engagement, action, result hash and authorization.
\<close>

definition chain_input :: "chain_scheme \<Rightarrow> string \<Rightarrow> AuditRecord \<Rightarrow> string" where
  "chain_input A prev r =
     prev @ seq_text A (sequence r) @ timestamp r @ operator_id r @ engagement_id r
       @ action r @ result_hash r @ authorization r"

text \<open>
  Modelled from the spec: the state of one log instance (sections 5 and 9), the growing
  sequence of records of one engagement and operator.
\<close>

record AuditLog =
  log_operator :: string
  log_engagement :: string
  records :: "AuditRecord list"

definition empty_log :: "string \<Rightarrow> string \<Rightarrow> AuditLog" where
  "empty_log operator engagement =
     \<lparr>log_operator = operator, log_engagement = engagement, records = []\<rparr>"

text \<open>
  Modelled from the spec: \<open>append(action, resultPayload, authorization, taskID)\<close> of section
  4.3. The next sequence number is the last one plus 1, starting at 0; the previous hash
  is the chain hash of the last record, or the sentinel.
\<close>

definition append_record ::
    "chain_scheme \<Rightarrow> AuditLog \<Rightarrow> string \<Rightarrow> string \<Rightarrow> string \<Rightarrow> string \<Rightarrow> string
      \<Rightarrow> AuditRecord \<times> AuditLog" where
  "append_record A L now act resultPayload auth taskID =
    (let seq = (case records L of [] \<Rightarrow> 0 | _ \<Rightarrow> sequence (last (records L)) + 1);
         prev = (case records L of [] \<Rightarrow> sentinel A | _ \<Rightarrow> chain_hash (last (records L)));
         r0 = \<lparr>sequence = seq, timestamp = now, operator_id = log_operator L,
               engagement_id = log_engagement L, action = act,
               result_hash = Digest A resultPayload, authorization = auth, task_id = taskID,
               prev_hash = prev, chain_hash = []\<rparr>;
         r = r0\<lparr>chain_hash := Digest A (chain_input A prev r0)\<rparr>
     in (r, L\<lparr>records := records L @ [r]\<rparr>))"

text \<open>An event is the arguments of one call: clock, action, payload, authorization, task.\<close>

type_synonym event = "string \<times> string \<times> string \<times> string \<times> string"

fun append_all :: "chain_scheme \<Rightarrow> AuditLog \<Rightarrow> event list \<Rightarrow> AuditLog" where
  "append_all A L [] = L"
| "append_all A L ((now, act, payload, auth, taskID) # es) =
     append_all A (snd (append_record A L now act payload auth taskID)) es"

text \<open>
  Modelled from the spec: \<open>verifyChain(records)\<close> of section 4.3. Each record's chain hash
  is recomputed from its own fields and the previous record's stored chain hash (the
  sentinel for the first) and compared with the stored one; sequence numbers have to run
  from 0 without a gap. The first failure gives \<open>False\<close>.
\<close>

fun verify_from :: "chain_scheme \<Rightarrow> string \<Rightarrow> nat \<Rightarrow> AuditRecord list \<Rightarrow> bool" where
  "verify_from A prev n [] = True"
| "verify_from A prev n (r # rs) =
    (if sequence r \<noteq> n then False
     else if chain_hash r \<noteq> Digest A (chain_input A prev r) then False
     else verify_from A (chain_hash r) (Suc n) rs)"

definition verifyChain :: "chain_scheme \<Rightarrow> AuditRecord list \<Rightarrow> bool" where
  "verifyChain A rs = verify_from A (sentinel A) 0 rs"

text \<open>
  The records of the log that a sequence of appends to an empty log produces; the chain
  hash that position \<open>i\<close> of a log chains to (the \<open>chain_hash[n-1]\<close> of the invariant of
  section 3); and the chain hash at the end of a list of records.
\<close>

definition built :: "chain_scheme \<Rightarrow> string \<Rightarrow> string \<Rightarrow> event list \<Rightarrow> AuditRecord list" where
  "built A operator engagement es = records (append_all A (empty_log operator engagement) es)"

definition prev_of :: "chain_scheme \<Rightarrow> AuditRecord list \<Rightarrow> nat \<Rightarrow> string" where
  "prev_of A rs i = (if i = 0 then sentinel A else chain_hash (rs ! (i - 1)))"

fun last_hash :: "string \<Rightarrow> AuditRecord list \<Rightarrow> string" where
  "last_hash prev [] = prev"
| "last_hash prev (r # rs) = last_hash (chain_hash r) rs"

text \<open>A change of one field of a record to a new value.\<close>

datatype field_change =
    SetSequence nat
  | SetTimestamp string
  | SetOperator string
  | SetEngagement string
  | SetAction string
  | SetResultHash string
  | SetAuthorization string
  | SetTaskID string
  | SetPrevHash string
  | SetChainHash string

fun mutate :: "field_change \<Rightarrow> AuditRecord \<Rightarrow> AuditRecord" where
  "mutate (SetSequence n) r = r\<lparr>sequence := n\<rparr>"
| "mutate (SetTimestamp s) r = r\<lparr>timestamp := s\<rparr>"
| "mutate (SetOperator s) r = r\<lparr>operator_id := s\<rparr>"
| "mutate (SetEngagement s) r = r\<lparr>engagement_id := s\<rparr>"
| "mutate (SetAction s) r = r\<lparr>action := s\<rparr>"
| "mutate (SetResultHash s) r = r\<lparr>result_hash := s\<rparr>"
| "mutate (SetAuthorization s) r = r\<lparr>authorization := s\<rparr>"
| "mutate (SetTaskID s) r = r\<lparr>task_id := s\<rparr>"
| "mutate (SetPrevHash s) r = r\<lparr>prev_hash := s\<rparr>"
| "mutate (SetChainHash s) r = r\<lparr>chain_hash := s\<rparr>"

text \<open>The fields that the chain covers: those in the digest input, and the chain hash.\<close>

fun chained :: "field_change \<Rightarrow> bool" where
  "chained (SetTaskID s) = False"
| "chained (SetPrevHash s) = False"
| "chained c = True"

text \<open>The change is a real one: the new value differs from the stored one.\<close>

fun changes :: "field_change \<Rightarrow> AuditRecord \<Rightarrow> bool" where
  "changes (SetSequence n) r = (n \<noteq> sequence r)"
| "changes (SetTimestamp s) r = (s \<noteq> timestamp r)"
| "changes (SetOperator s) r = (s \<noteq> operator_id r)"
| "changes (SetEngagement s) r = (s \<noteq> engagement_id r)"
| "changes (SetAction s) r = (s \<noteq> action r)"
| "changes (SetResultHash s) r = (s \<noteq> result_hash r)"
| "changes (SetAuthorization s) r = (s \<noteq> authorization r)"
| "changes (SetTaskID s) r = (s \<noteq> task_id r)"
| "changes (SetPrevHash s) r = (s \<noteq> prev_hash r)"
| "changes (SetChainHash s) r = (s \<noteq> chain_hash r)"

text \<open>
  A stand-in scheme for concrete runs. Its digest has a bounded output, as every digest
  function has: two hexadecimal digits, made of the length of the input and of the sum of
  its bytes.
\<close>

definition short_digest :: "string \<Rightarrow> string" where
  "short_digest s = [hex (length s mod 16), hex (sum_list (map byte s) mod 16)]"

definition short_scheme :: chain_scheme where
  "short_scheme = \<lparr>Digest = short_digest, sentinel = ''00'',
                    seq_text = (\<lambda>n. replicate n (CHR ''i'') @ ''.'')\<rparr>"

section \<open>Example values\<close>

text \<open>
  A task with the identifier, engagement, TTL (600), operator and approver of the task of
  the README, of type \<open>simulate_login\<close> and in state \<open>pending\<close> (the README and
  \<open>task_test.go\<close> write \<open>TaskTypeRecon\<close> and \<open>TaskStateApproved\<close>, which \<open>task.go\<close> does not
  declare), created five minutes before \<open>now0\<close> as in the scenario of the specification;
  it is called the README task below. \<open>now0\<close> is 2026-11-03 00:00:00 UTC, as
  \<open>time.Now().UTC()\<close> gives it.
\<close>

definition now0 :: Time where
  "now0 = \<lparr>sec = unixToInternal + 1793664000, nsec = 0, mono = None, offset = 0\<rparr>"

text \<open>The time that is \<open>n\<close> seconds after \<open>now0\<close>, and a reading of \<open>time.Now()\<close> at that time:
  with a monotonic reading and in a location one hour east of UTC.\<close>

definition later :: "int \<Rightarrow> Time" where
  "later n = now0\<lparr>sec := sec now0 + n\<rparr>"

definition reading :: "int \<Rightarrow> Time" where
  "reading n = (later n)\<lparr>mono := Some (7 * second + n * second), offset := 3600\<rparr>"

definition task001 :: Task where
  "task001 = \<lparr>ID = ''task-001'', Engagement = ''eng-2026'', Type = TaskSimulateLogin,
               CreatedAt = later (- 300), TTLSeconds = 600, Operator = ''op-alice'',
               ApprovedBy = ''lead-bob'', State = StatePending, CancelToken = [],
               Params = None\<rparr>"

text \<open>
  The same task with a \<open>Params\<close> map of one entry, \<open>target\<close> with the value
  \<open>192.168.1.0/24\<close>; the map object is at address 0.
\<close>

definition heap001 :: heap where
  "heap001 = [[(''target'', ''192.168.1.0/24'')]]"

definition task001p :: Task where
  "task001p = task001\<lparr>Params := Some 0\<rparr>"

definition seed0 :: string where
  "seed0 = replicate 32 (CHR ''s'')"

definition priv0 :: string where
  "priv0 = NewKeyFromSeed standin seed0"

definition pub0 :: string where
  "pub0 = drop 32 priv0"

text \<open>A task created at the first instant of year 10000, UTC.\<close>

definition far_task :: Task where
  "far_task = task001\<lparr>CreatedAt := \<lparr>sec = year10000, nsec = 0, mono = None, offset = 0\<rparr>\<rparr>"

text \<open>
  The last second that a \<open>time.Time\<close> can hold, and the README task created then.
\<close>

definition last_time :: Time where
  "last_time = \<lparr>sec = maxInt64, nsec = 0, mono = None, offset = 0\<rparr>"

definition last_task :: Task where
  "last_task = task001\<lparr>CreatedAt := last_time\<rparr>"

text \<open>
  The README task created in a location whose offset is no whole number of minutes (30
  seconds east of UTC, as \<open>time.FixedZone\<close> gives).
\<close>

definition zone_task :: Task where
  "zone_task = task001\<lparr>CreatedAt := (later (- 300))\<lparr>offset := 30\<rparr>\<rparr>"

text \<open>A task whose identifier is the single byte \<open>0xFF\<close>, which is no UTF-8.\<close>

definition task_ff :: Task where
  "task_ff = task001\<lparr>ID := [CHR 0xFF]\<rparr>"

text \<open>A log of three appends.\<close>

definition events3 :: "event list" where
  "events3 = [(''2026-11-02T10:00:00Z'', ''recon_scan'', ''hosts=5'', ''task-001'', ''task-001''),
              (''2026-11-02T10:05:00Z'', ''simulate_login'', ''ok'', ''task-002'', ''task-002''),
              (''2026-11-02T10:09:00Z'', ''inventory'', ''items=12'', ''task-003'', ''task-003'')]"

definition log3 :: "AuditRecord list" where
  "log3 = built short_scheme ''op-alice'' ''eng-001'' events3"

section \<open>Evaluation rules and auxiliary facts\<close>

lemmas time_defs = UTC_def After_def Equal_def Add_def addSec_def saturating_def stripMono_def
  quo_def rem_def maxInt64_def minInt64_def wallToInternal_def unixToInternal_def second_def
  wall_ns_def wf_time_def year0_def year10000_def Let_def

lemmas example_defs = task001_def task001p_def heap001_def now0_def later_def reading_def
  TaskSimulateLogin_def TaskSimulateBeacon_def TaskInventory_def TaskEmitSynthetic_def
  StatePending_def StateExecuting_def StateCancelled_def StateCompleted_def StateFailed_def
  allowedTaskTypes_def validTaskStates_def
  minTTLSeconds_def maxTTLSeconds_def expiry_def far_task_def task_ff_def last_time_def
  last_task_def zone_task_def

lemmas json_defs = marshalTask_def time_MarshalJSON_def params_of_def marshalParams_def
  utf8_width_def byte_def in_range_def escape_ascii_def htmlSafe_def dquote_def
  backslash_def hex_def marshalSignedTask_def heap_get_def heap_assign_def heap_alloc_def

lemmas unjson_defs = unmarshalSignedTask_def unmarshalSignedTaskMember_def unmarshalTask_def
  unmarshalTaskMember_def as_string_def as_bytes_def unquote_step_def getu4_def hexval_def
  isSurrogate_def utf8_encode_def replacement_def zeroSignedTask_def zeroTask_def
  zeroTime_def char_of_eq_iff time_UnmarshalJSON_def field_match_def

lemmas attest_defs = SignTask_def VerifyTask_def GenerateKeyPair_def PrivateKeySize_def
  PublicKeySize_def SignatureSize_def SeedSize_def standin_def fingerprint_def priv0_def
  pub0_def seed0_def signed_ptr_def

lemmas audit_defs = log3_def built_def events3_def empty_log_def append_record_def Let_def
  short_scheme_def short_digest_def chain_input_def verifyChain_def prev_of_def hex_def
  byte_def

subsection \<open>Arithmetic of \<open>time.Time\<close>\<close>

lemma quo_seconds: "0 \<le> n \<Longrightarrow> quo (n * second) second = n"
  by (simp add: quo_def second_def)

lemma rem_seconds: "0 \<le> n \<Longrightarrow> rem (n * second) second = 0"
  by (simp add: rem_def quo_seconds)

lemma mono_addSec_None: "mono t = None \<Longrightarrow> mono (addSec t d) = None"
  by (simp add: addSec_def saturating_def)

lemma mono_Add_None: "mono t = None \<Longrightarrow> mono (Add t d) = None"
  by (simp add: Add_def Let_def mono_addSec_None)

lemma nsec_addSec: "nsec (addSec t d) = nsec t"
  by (simp add: addSec_def saturating_def stripMono_def split: option.splits)

lemma sec_addSec:
  "minInt64 \<le> sec t \<Longrightarrow> 0 \<le> d \<Longrightarrow>
     sec (addSec t d) = (if sec t + d > maxInt64 then maxInt64 else sec t + d)"
  by (auto simp: addSec_def saturating_def stripMono_def wallToInternal_def maxInt64_def
        minInt64_def split: option.splits)

text \<open>
  Adding whole seconds: the nanoseconds stay, and the seconds are the sum unless that is
  beyond the last second, where the result stays.
\<close>

lemma Add_seconds:
  assumes "0 \<le> n" and "0 \<le> nsec t" and "nsec t < second" and "minInt64 \<le> sec t"
  shows "nsec (Add t (n * second)) = nsec t"
    and "sec (Add t (n * second)) = (if sec t + n > maxInt64 then maxInt64 else sec t + n)"
proof -
  let ?t1 = "addSec (t\<lparr>nsec := nsec t\<rparr>) n"
  have A: "Add t (n * second) =
      (case mono ?t1 of None \<Rightarrow> ?t1
       | Some m \<Rightarrow> if m + n * second > maxInt64 \<or> m + n * second < minInt64 then stripMono ?t1
                   else ?t1\<lparr>mono := Some (m + n * second)\<rparr>)"
    using assms(2,3) by (simp add: Add_def Let_def quo_seconds [OF assms(1)] rem_seconds [OF assms(1)])
  show "nsec (Add t (n * second)) = nsec t"
    unfolding A by (simp add: nsec_addSec stripMono_def split: option.splits)
  have "sec (Add t (n * second)) = sec ?t1"
    unfolding A by (simp add: stripMono_def split: option.splits)
  also have "\<dots> = (if sec t + n > maxInt64 then maxInt64 else sec t + n)"
    using sec_addSec [of "t\<lparr>nsec := nsec t\<rparr>" n] assms(1,4) by simp
  finally show "sec (Add t (n * second)) = (if sec t + n > maxInt64 then maxInt64 else sec t + n)" .
qed

lemma lex_less:
  fixes N :: int
  assumes "s < u" "0 \<le> a" "a < N" "0 \<le> b"
  shows "s * N + a < u * N + b"
proof -
  from assms(2-4) have N: "0 \<le> N" "a < N + b" by simp_all
  from assms(1) have "s + 1 \<le> u" by simp
  then have "(s + 1) * N \<le> u * N" using N(1) by (rule mult_right_mono)
  then have "s * N + N \<le> u * N" by (simp add: algebra_simps)
  with N(2) show ?thesis by simp
qed

lemma wall_order:
  assumes "0 \<le> nsec t" "nsec t < second" "0 \<le> nsec u" "nsec u < second"
  shows "(sec t > sec u \<or> (sec t = sec u \<and> nsec t > nsec u)) \<longleftrightarrow> wall_ns t > wall_ns u"
    and "(sec t = sec u \<and> nsec t = nsec u) \<longleftrightarrow> wall_ns t = wall_ns u"
proof -
  have lt: "sec t < sec u \<Longrightarrow> wall_ns t < wall_ns u"
    unfolding wall_ns_def using assms by (intro lex_less) simp_all
  have gt: "sec u < sec t \<Longrightarrow> wall_ns u < wall_ns t"
    unfolding wall_ns_def using assms by (intro lex_less) simp_all
  have eq: "sec t = sec u \<Longrightarrow> wall_ns t - wall_ns u = nsec t - nsec u"
    unfolding wall_ns_def by simp
  show "(sec t > sec u \<or> (sec t = sec u \<and> nsec t > nsec u)) \<longleftrightarrow> wall_ns t > wall_ns u"
    using lt gt eq by (cases "sec t < sec u"; cases "sec u < sec t") auto
  show "(sec t = sec u \<and> nsec t = nsec u) \<longleftrightarrow> wall_ns t = wall_ns u"
    using lt gt eq by (cases "sec t < sec u"; cases "sec u < sec t") auto
qed

lemma After_wall:
  assumes "mono t = None \<or> mono u = None"
    and "0 \<le> nsec t" "nsec t < second" "0 \<le> nsec u" "nsec u < second"
  shows "After t u \<longleftrightarrow> wall_ns t > wall_ns u"
  using assms(1) wall_order(1) [OF assms(2-5)]
  by (auto simp: After_def split: option.splits)

lemma Equal_wall:
  assumes "mono t = None \<or> mono u = None"
    and "0 \<le> nsec t" "nsec t < second" "0 \<le> nsec u" "nsec u < second"
  shows "Equal t u \<longleftrightarrow> wall_ns t = wall_ns u"
  using assms(1) wall_order(2) [OF assms(2-5)]
  by (auto simp: Equal_def split: option.splits)


lemma UTC_simps [simp]:
  "sec (UTC t) = sec t" "nsec (UTC t) = nsec t" "mono (UTC t) = None" "offset (UTC t) = 0"
  "wall_ns (UTC t) = wall_ns t" "wf_time (UTC t) = wf_time t"
  by (simp_all add: UTC_def wall_ns_def wf_time_def)

text \<open>
  The expiry of a task whose TTL is not negative is the instant \<open>createdAt + ttl\<close> unless
  that is beyond the last second.
\<close>

lemma expiry_exact:
  assumes "0 \<le> TTLSeconds t" and "0 \<le> nsec (CreatedAt t)" and "nsec (CreatedAt t) < second"
    and "minInt64 \<le> sec (CreatedAt t)" and "sec (CreatedAt t) + TTLSeconds t \<le> maxInt64"
  shows "nsec (expiry t) = nsec (CreatedAt t)"
    and "sec (expiry t) = sec (CreatedAt t) + TTLSeconds t"
    and "wall_ns (expiry t) = wall_ns (CreatedAt t) + TTLSeconds t * second"
proof -
  show n: "nsec (expiry t) = nsec (CreatedAt t)"
    unfolding expiry_def using assms(1-4) by (rule Add_seconds(1))
  show s: "sec (expiry t) = sec (CreatedAt t) + TTLSeconds t"
    unfolding expiry_def using Add_seconds(2) [OF assms(1-4)] assms(5) by simp
  show "wall_ns (expiry t) = wall_ns (CreatedAt t) + TTLSeconds t * second"
    by (simp add: wall_ns_def n s algebra_simps)
qed

text \<open>
  Where the two values do not both carry a monotonic reading and the sum is within the
  range of \<open>time.Time\<close>, the comparisons of \<open>Validate\<close> are those of the instants.
\<close>

lemma expiry_compare:
  assumes "wf_time now" and "wf_time (CreatedAt t)"
    and "mono now = None \<or> mono (CreatedAt t) = None"
    and "0 \<le> TTLSeconds t" and "sec (CreatedAt t) + TTLSeconds t \<le> maxInt64"
  shows "After now (expiry t) \<longleftrightarrow> wall_ns now > wall_ns (CreatedAt t) + TTLSeconds t * second"
    and "Equal now (expiry t) \<longleftrightarrow> wall_ns now = wall_ns (CreatedAt t) + TTLSeconds t * second"
proof -
  from assms(2) have c: "0 \<le> nsec (CreatedAt t)" "nsec (CreatedAt t) < second"
    "minInt64 \<le> sec (CreatedAt t)" by (simp_all add: wf_time_def)
  note e = expiry_exact [OF assms(4) c assms(5)]
  from assms(3) have m: "mono now = None \<or> mono (expiry t) = None"
    by (auto simp: expiry_def mono_Add_None)
  from assms(1) have n: "0 \<le> nsec now" "nsec now < second" by (simp_all add: wf_time_def)
  have en: "0 \<le> nsec (expiry t)" "nsec (expiry t) < second" using c e(1) by simp_all
  show "After now (expiry t) \<longleftrightarrow> wall_ns now > wall_ns (CreatedAt t) + TTLSeconds t * second"
    using After_wall [OF m n en] e(3) by simp
  show "Equal now (expiry t) \<longleftrightarrow> wall_ns now = wall_ns (CreatedAt t) + TTLSeconds t * second"
    using Equal_wall [OF m n en] e(3) by simp
qed


subsection \<open>Validation and the clock\<close>

lemma Validate_still_valid:
  "Validate (Some t) now = None \<Longrightarrow> \<not> After now' (expiry t) \<Longrightarrow> \<not> Equal now' (expiry t) \<Longrightarrow>
     Validate (Some t) now' = None"
  by (simp split: if_splits)

lemma Validate_before_expiry_same:
  "\<not> After c1 (expiry t) \<Longrightarrow> \<not> Equal c1 (expiry t) \<Longrightarrow>
   \<not> After c2 (expiry t) \<Longrightarrow> \<not> Equal c2 (expiry t) \<Longrightarrow>
     Validate (Some t) c1 = Validate (Some t) c2"
  by simp

lemma Validate_late:
  "Validate (Some t) now = None \<Longrightarrow> After now' (expiry t) \<or> Equal now' (expiry t) \<Longrightarrow>
     Validate (Some t) now' = Some (TaskExpired (UTC (expiry t)) (UTC now'))"
  by (auto split: if_splits)

lemma Validate_ok_ttl:
  "Validate (Some t) now = None \<Longrightarrow> 1 \<le> TTLSeconds t \<and> TTLSeconds t \<le> 3600"
  by (auto simp: minTTLSeconds_def maxTTLSeconds_def split: if_splits)

subsection \<open>Which tasks serialise\<close>

text \<open>
  A task serialises exactly when, in the location of its creation time, the year lies in
  0 to 9999 and the zone offset is less than 24 hours.
\<close>

lemma zone_hour: "(24 \<le> \<bar>quo z 60\<bar> div 60) \<longleftrightarrow> 86400 \<le> \<bar>z\<bar>"
proof -
  have a: "\<bar>quo z 60\<bar> = \<bar>z\<bar> div 60"
  proof (cases "0 \<le> z")
    case True
    then have "0 \<le> z div 60" by (simp add: pos_imp_zdiv_nonneg_iff)
    with True show ?thesis by (simp add: quo_def)
  next
    case False
    then have "0 \<le> (- z) div 60" by (simp add: pos_imp_zdiv_nonneg_iff)
    with False show ?thesis by (simp add: quo_def)
  qed
  have b: "\<bar>z\<bar> div 60 div 60 = \<bar>z\<bar> div 3600"
    using zdiv_zmult2_eq [of 60 "\<bar>z\<bar>" 60] by simp
  have "(24 \<le> \<bar>z\<bar> div 3600) \<longleftrightarrow> 86400 \<le> \<bar>z\<bar>" by linarith
  with a b show ?thesis by simp
qed

lemma marshalTask_ok_iff:
  "(\<exists>p. marshalTask h t = Inr p) \<longleftrightarrow>
     (year0 \<le> sec (CreatedAt t) + offset (CreatedAt t)
      \<and> sec (CreatedAt t) + offset (CreatedAt t) < year10000
      \<and> \<bar>offset (CreatedAt t)\<bar> < 86400)"
  using zone_hour [of "offset (CreatedAt t)"]
  by (auto simp: marshalTask_def time_MarshalJSON_def split: sum.splits if_splits)

lemma serialisable_range:
  assumes "marshalTask h t = Inr p"
  shows "minInt64 \<le> sec (CreatedAt t)" and "sec (CreatedAt t) + 3600 \<le> maxInt64"
  using marshalTask_ok_iff [of h t] assms
  by (auto simp: year0_def year10000_def minInt64_def maxInt64_def)

text \<open>
  A task that serialises and whose TTL is in range cannot saturate: for it the expiry
  test of \<open>Validate\<close> at a UTC clock reading is the comparison of the instants.
\<close>

lemma serialisable_expiry:
  assumes "marshalTask h task = Inr payload"
    and "1 \<le> TTLSeconds task" and "TTLSeconds task \<le> 3600"
    and "wf_time now" and "wf_time (CreatedAt task)"
  shows "After (UTC now) (expiry task)
           \<longleftrightarrow> wall_ns now > wall_ns (CreatedAt task) + TTLSeconds task * second"
    and "Equal (UTC now) (expiry task)
           \<longleftrightarrow> wall_ns now = wall_ns (CreatedAt task) + TTLSeconds task * second"
    and "wall_ns (expiry task) = wall_ns (CreatedAt task) + TTLSeconds task * second"
proof -
  from serialisable_range(2) [OF assms(1)] assms(3)
  have s: "sec (CreatedAt task) + TTLSeconds task \<le> maxInt64" by simp
  from assms(2) have n: "0 \<le> TTLSeconds task" by simp
  from assms(4) have w: "wf_time (UTC now)" by simp
  have m: "mono (UTC now) = None \<or> mono (CreatedAt task) = None" by simp
  from expiry_compare [OF w assms(5) m n s]
  show "After (UTC now) (expiry task)
           \<longleftrightarrow> wall_ns now > wall_ns (CreatedAt task) + TTLSeconds task * second"
    and "Equal (UTC now) (expiry task)
           \<longleftrightarrow> wall_ns now = wall_ns (CreatedAt task) + TTLSeconds task * second"
    by simp_all
  from assms(5) have c: "0 \<le> nsec (CreatedAt task)" "nsec (CreatedAt task) < second"
    "minInt64 \<le> sec (CreatedAt task)" by (simp_all add: wf_time_def)
  from expiry_exact(3) [OF n c s]
  show "wall_ns (expiry task) = wall_ns (CreatedAt task) + TTLSeconds task * second" .
qed

subsection \<open>The example task and key pair\<close>

lemma task001_valid: "Validate (Some task001) now0 = None"
  by (simp add: example_defs time_defs)

lemma task001_serialises: "\<exists>p. marshalTask h task001 = Inr p"
  unfolding marshalTask_ok_iff by (simp add: example_defs time_defs)

lemma priv0_length: "length priv0 = 64"
  by (simp add: priv0_def standin_def seed0_def)

lemma pub0_length: "length pub0 = 32"
  by (simp add: pub0_def priv0_def standin_def seed0_def)

lemma standin_sign_length: "length priv = 64 \<Longrightarrow> length (Sign standin priv d) = 64"
  by (simp add: standin_def fingerprint_def)

lemma standin_accepts: "Verify standin (drop 32 priv) d (Sign standin priv d)"
  by (simp add: standin_def)

lemma standin_generates: "GenerateKeyPair standin seed0 = Inr (pub0, priv0)"
  by (simp add: attest_defs)

text \<open>
  What \<open>SignTask\<close> returns for a task that validates and serialises, under keys of the
  right sizes; and what a returned signed task tells.
\<close>

lemma SignTask_ok:
  "Validate (Some task) (UTC clock) = None \<Longrightarrow> length priv = 64 \<Longrightarrow> length pub = 32 \<Longrightarrow>
   marshalTask h task = Inr payload \<Longrightarrow>
     SignTask E h clock task priv pub
       = Inr \<lparr>Task = task, PublicKey = pub, Signature = Sign E priv payload\<rparr>"
  by (simp add: SignTask_def PrivateKeySize_def PublicKeySize_def del: Validate.simps)

lemma SignTask_Inr:
  assumes "SignTask E h clock task priv pub = Inr st"
  shows "Validate (Some task) (UTC clock) = None"
    and "length priv = 64" and "length pub = 32"
    and "\<exists>payload. marshalTask h task = Inr payload
           \<and> st = \<lparr>Task = task, PublicKey = pub, Signature = Sign E priv payload\<rparr>"
  using assms
  by (auto simp: SignTask_def PrivateKeySize_def PublicKeySize_def simp del: Validate.simps
        split: if_splits option.splits sum.splits)

subsection \<open>The chain\<close>

lemma last_hash_last: "rs \<noteq> [] \<Longrightarrow> last_hash prev rs = chain_hash (last rs)"
  by (induction rs arbitrary: prev) auto

lemma case_nonempty: "xs \<noteq> [] \<Longrightarrow> (case xs of [] \<Rightarrow> x | a # as \<Rightarrow> y) = y"
  by (cases xs) auto

lemma verify_from_snoc:
  "verify_from A prev n (rs @ [r]) =
     (verify_from A prev n rs \<and> sequence r = n + length rs
      \<and> chain_hash r = Digest A (chain_input A (last_hash prev rs) r))"
  by (induction rs arbitrary: prev n) auto

lemma verify_from_last_sequence:
  "verify_from A prev n rs \<Longrightarrow> rs \<noteq> [] \<Longrightarrow> sequence (last rs) + 1 = n + length rs"
proof (induction rs arbitrary: prev n)
  case Nil
  then show ?case by simp
next
  case (Cons a rs)
  from Cons.prems(1) have a: "sequence a = n" and rest: "verify_from A (chain_hash a) (Suc n) rs"
    by (auto split: if_splits)
  show ?case
  proof (cases "rs = []")
    case True
    with a show ?thesis by simp
  next
    case False
    from Cons.IH [OF rest False] False show ?thesis by simp
  qed
qed

lemma chain_input_chain_hash [simp]:
  "chain_input A prev (r\<lparr>chain_hash := c\<rparr>) = chain_input A prev r"
  by (simp add: chain_input_def)

lemma append_record_verifies:
  assumes "verifyChain A (records L)"
  shows "verifyChain A (records (snd (append_record A L now act payload auth taskID)))"
proof (cases "records L")
  case Nil
  then show ?thesis
    by (simp add: verifyChain_def append_record_def Let_def chain_input_def)
next
  case (Cons a rs)
  then have ne: "records L \<noteq> []" by simp
  from assms have v: "verify_from A (sentinel A) 0 (records L)"
    by (simp add: verifyChain_def)
  have seq: "sequence (last (records L)) + 1 = length (records L)"
    using verify_from_last_sequence [OF v ne] by simp
  show ?thesis
    using v seq
    by (simp add: verifyChain_def append_record_def Let_def verify_from_snoc chain_input_def
          case_nonempty [OF ne] last_hash_last [OF ne] del: verify_from.simps)
qed

lemma append_all_verifies:
  "verifyChain A (records L) \<Longrightarrow> verifyChain A (records (append_all A L es))"
proof (induction es arbitrary: L)
  case Nil
  then show ?case by simp
next
  case (Cons e es)
  obtain now act payload auth taskID where e: "e = (now, act, payload, auth, taskID)"
    by (cases e) auto
  show ?case
    unfolding e append_all.simps
    by (rule Cons.IH) (rule append_record_verifies [OF Cons.prems])
qed

lemma built_verifies: "verifyChain A (built A operator engagement es)"
  unfolding built_def
  by (rule append_all_verifies) (simp add: verifyChain_def empty_log_def)

lemma verify_from_nth:
  "verify_from A prev n rs \<Longrightarrow> i < length rs \<Longrightarrow>
     sequence (rs ! i) = n + i
     \<and> chain_hash (rs ! i)
         = Digest A (chain_input A (if i = 0 then prev else chain_hash (rs ! (i - 1))) (rs ! i))"
proof (induction rs arbitrary: prev n i)
  case Nil
  then show ?case by simp
next
  case (Cons a rs)
  from Cons.prems(1) have a: "sequence a = n" "chain_hash a = Digest A (chain_input A prev a)"
    and rest: "verify_from A (chain_hash a) (Suc n) rs"
    by (auto split: if_splits)
  show ?case
  proof (cases i)
    case 0
    with a show ?thesis by simp
  next
    case (Suc j)
    with Cons.prems(2) have j: "j < length rs" by simp
    from Cons.IH [OF rest j] show ?thesis
      using Suc by (cases j) auto
  qed
qed

lemma verifyChain_nth:
  "verifyChain A rs \<Longrightarrow> i < length rs \<Longrightarrow>
     sequence (rs ! i) = i
     \<and> chain_hash (rs ! i) = Digest A (chain_input A (prev_of A rs i) (rs ! i))"
  using verify_from_nth [of A "sentinel A" 0 rs i]
  by (simp add: verifyChain_def prev_of_def)

text \<open>
  A record may be replaced by one with the same sequence number and chain hash whose
  digest input has the same digest.
\<close>

lemma verify_from_update:
  "verify_from A prev n rs \<Longrightarrow> i < length rs \<Longrightarrow> sequence r' = sequence (rs ! i) \<Longrightarrow>
   chain_hash r' = chain_hash (rs ! i) \<Longrightarrow>
   Digest A (chain_input A (if i = 0 then prev else chain_hash (rs ! (i - 1))) r')
     = Digest A (chain_input A (if i = 0 then prev else chain_hash (rs ! (i - 1))) (rs ! i)) \<Longrightarrow>
   verify_from A prev n (rs[i := r'])"
proof (induction rs arbitrary: prev n i)
  case Nil
  then show ?case by simp
next
  case (Cons a rs)
  from Cons.prems(1) have a: "sequence a = n" "chain_hash a = Digest A (chain_input A prev a)"
    and rest: "verify_from A (chain_hash a) (Suc n) rs"
    by (auto split: if_splits)
  show ?case
  proof (cases i)
    case 0
    with Cons.prems(3-5) a rest show ?thesis by simp
  next
    case (Suc j)
    with Cons.prems(2) have j: "j < length rs" by simp
    have "verify_from A (chain_hash a) (Suc n) (rs[j := r'])"
      using rest j
    proof (rule Cons.IH)
      show "sequence r' = sequence (rs ! j)" using Cons.prems(3) Suc by simp
      show "chain_hash r' = chain_hash (rs ! j)" using Cons.prems(4) Suc by simp
      show "Digest A (chain_input A (if j = 0 then chain_hash a else chain_hash (rs ! (j - 1))) r')
        = Digest A (chain_input A (if j = 0 then chain_hash a else chain_hash (rs ! (j - 1)))
            (rs ! j))"
        using Cons.prems(5) Suc by (cases j) simp_all
    qed
    with a Suc show ?thesis by simp
  qed
qed

lemma covered_change:
  "chained c \<Longrightarrow> changes c r \<Longrightarrow> sequence (mutate c r) = sequence r \<Longrightarrow>
   chain_hash (mutate c r) = chain_hash r \<Longrightarrow>
   chain_input A p (mutate c r) \<noteq> chain_input A p r"
  by (cases c) (simp_all add: chain_input_def)

lemma chain_hash_change:
  "chain_hash (mutate c r) \<noteq> chain_hash r \<Longrightarrow>
   chain_input A p (mutate c r) = chain_input A p r"
  by (cases c) simp_all

lemma uncovered_change:
  "\<not> chained c \<Longrightarrow>
     sequence (mutate c r) = sequence r \<and> chain_hash (mutate c r) = chain_hash r
     \<and> chain_input A p (mutate c r) = chain_input A p r"
  by (cases c) (simp_all add: chain_input_def)

text \<open>
  When exactly a log with one record changed still verifies: the sequence number and the
  chain hash are as before and the digest of the changed input is the stored one.
\<close>

lemma change_verifies_iff:
  assumes ok: "verifyChain A rs" and i: "i < length rs"
  shows "verifyChain A (rs[i := mutate c (rs ! i)]) \<longleftrightarrow>
     (sequence (mutate c (rs ! i)) = sequence (rs ! i)
      \<and> chain_hash (mutate c (rs ! i)) = chain_hash (rs ! i)
      \<and> Digest A (chain_input A (prev_of A rs i) (mutate c (rs ! i)))
          = Digest A (chain_input A (prev_of A rs i) (rs ! i)))"
proof
  let ?r = "rs ! i" and ?r' = "mutate c (rs ! i)" and ?p = "prev_of A rs i"
  from verifyChain_nth [OF ok i]
  have o: "sequence ?r = i" "chain_hash ?r = Digest A (chain_input A ?p ?r)"
    by simp_all
  {
    assume bad: "verifyChain A (rs[i := ?r'])"
    have p: "prev_of A (rs[i := ?r']) i = ?p"
      by (simp add: prev_of_def)
    have i': "i < length (rs[i := ?r'])"
      using i by simp
    from verifyChain_nth [OF bad i'] i
    have m: "sequence ?r' = i" "chain_hash ?r' = Digest A (chain_input A ?p ?r')"
      by (simp_all add: p)
    have h: "chain_hash ?r' = chain_hash ?r"
    proof (rule ccontr)
      assume "chain_hash ?r' \<noteq> chain_hash ?r"
      from chain_hash_change [OF this] m(2) o(2) this show False by simp
    qed
    with m o show "sequence ?r' = sequence ?r \<and> chain_hash ?r' = chain_hash ?r
      \<and> Digest A (chain_input A ?p ?r') = Digest A (chain_input A ?p ?r)"
      by simp
  }
  {
    assume same: "sequence ?r' = sequence ?r \<and> chain_hash ?r' = chain_hash ?r
      \<and> Digest A (chain_input A ?p ?r') = Digest A (chain_input A ?p ?r)"
    from ok have "verify_from A (sentinel A) 0 rs"
      by (simp add: verifyChain_def)
    then have "verify_from A (sentinel A) 0 (rs[i := ?r'])"
      using i same by (intro verify_from_update) (simp_all add: prev_of_def)
    then show "verifyChain A (rs[i := ?r'])"
      by (simp add: verifyChain_def)
  }
qed

lemma removal_detected:
  assumes ok: "verifyChain A rs" and i: "Suc i < length rs"
  shows "\<not> verifyChain A (take i rs @ drop (Suc i) rs)"
proof
  assume bad: "verifyChain A (take i rs @ drop (Suc i) rs)"
  have len: "i < length (take i rs @ drop (Suc i) rs)" using i by simp
  have nth: "(take i rs @ drop (Suc i) rs) ! i = rs ! Suc i"
    using i by (simp add: nth_append)
  from verifyChain_nth [OF bad len] have "sequence (rs ! Suc i) = i" by (simp add: nth)
  moreover from verifyChain_nth [OF ok i] have "sequence (rs ! Suc i) = Suc i" by simp
  ultimately show False by simp
qed

text \<open>
  A digest with finitely many values, as every digest of bounded length has, sends two
  different authorizations of an otherwise equal first record to the same chain hash; the
  change from one to the other is not detected.
\<close>

lemma bounded_digest_collides:
  assumes "finite (range (Digest A))"
  shows "\<exists>a b. a \<noteq> b \<and> Digest A (pre @ a) = Digest A (pre @ b)"
proof -
  let ?f = "\<lambda>s. Digest A (pre @ s)"
  have "range ?f \<subseteq> range (Digest A)" by auto
  with assms have fin: "finite (range ?f)" by (rule rev_finite_subset)
  have "\<not> inj ?f"
  proof
    assume "inj ?f"
    with fin have "finite (UNIV :: string set)" by (rule finite_imageD)
    then show False by (simp add: infinite_UNIV_listI)
  qed
  then show ?thesis by (auto simp: inj_def)
qed

lemma single_record:
  "built A operator engagement [(now, act, payload, auth, taskID)]
     = [\<lparr>sequence = 0, timestamp = now, operator_id = operator, engagement_id = engagement,
         action = act, result_hash = Digest A payload, authorization = auth,
         task_id = taskID, prev_hash = sentinel A,
         chain_hash = Digest A (sentinel A @ seq_text A 0 @ now @ operator @ engagement @ act
                                  @ Digest A payload @ auth)\<rparr>]"
  by (simp add: built_def empty_log_def append_record_def Let_def chain_input_def)

lemma bounded_digest_undetected:
  assumes "finite (range (Digest A))"
  shows "\<exists>a b. changes (SetAuthorization b)
                  (built A operator engagement [(now, act, payload, a, taskID)] ! 0)
           \<and> verifyChain A ((built A operator engagement [(now, act, payload, a, taskID)])
                 [0 := mutate (SetAuthorization b)
                        (built A operator engagement [(now, act, payload, a, taskID)] ! 0)])"
proof -
  from bounded_digest_collides [OF assms,
      of "sentinel A @ seq_text A 0 @ now @ operator @ engagement @ act @ Digest A payload"]
  obtain a b where ab: "a \<noteq> b"
    "Digest A (sentinel A @ seq_text A 0 @ now @ operator @ engagement @ act @ Digest A payload @ a)
     = Digest A (sentinel A @ seq_text A 0 @ now @ operator @ engagement @ act @ Digest A payload @ b)"
    by auto
  have "changes (SetAuthorization b)
                  (built A operator engagement [(now, act, payload, a, taskID)] ! 0)
           \<and> verifyChain A ((built A operator engagement [(now, act, payload, a, taskID)])
                 [0 := mutate (SetAuthorization b)
                        (built A operator engagement [(now, act, payload, a, taskID)] ! 0)])"
    using ab by (simp add: single_record verifyChain_def chain_input_def)
  then show ?thesis by blast
qed

lemma short_digest_bounded: "finite (range (Digest short_scheme))"
proof -
  have "short_digest s \<in> (\<lambda>p. [hex (fst p), hex (snd p)]) ` ({..<16} \<times> {..<16})" for s
    unfolding short_digest_def
    by (rule image_eqI [where x = "(length s mod 16, sum_list (map byte s) mod 16)"]) simp_all
  then have "range short_digest \<subseteq> (\<lambda>p. [hex (fst p), hex (snd p)]) ` ({..<16} \<times> {..<16})"
    by blast
  moreover have "finite ((\<lambda>p. [hex (fst p), hex (snd p)]) ` ({..<16::nat} \<times> {..<16::nat}))"
    by simp
  ultimately have "finite (range short_digest)" by (rule finite_subset)
  then show ?thesis by (simp add: short_scheme_def)
qed

lemma log3_length: "length log3 = 3"
  by (simp add: audit_defs)

section \<open>The claims\<close>

subsection \<open>C1: what \<open>Validate\<close> accepts, and the error of each single violation\<close>

text \<open>
  Claim C1 as stated (a task that meets the seven conditions on its fields and for which
  \<open>now\<close> is strictly before \<open>createdAt + ttl\<close> validates) does not hold where
  \<open>createdAt + ttl\<close> is beyond the last second that a \<open>time.Time\<close> can hold. \<open>Add\<close>
  saturates there, so the expiry that \<open>Validate\<close> computes is earlier than
  \<open>createdAt + ttl\<close>. The README task created at the last second and validated at that
  same second meets all eight conditions, \<open>now\<close> being 600 seconds before
  \<open>createdAt + ttl\<close>; its computed expiry is the last second itself, and it fails with
  the expiry error.
\<close>

theorem Validate_saturated_expiry:
  "ID last_task \<noteq> [] \<and> Engagement last_task \<noteq> [] \<and> Operator last_task \<noteq> []
   \<and> ApprovedBy last_task \<noteq> []
   \<and> Type last_task \<in> set allowedTaskTypes \<and> State last_task \<in> set validTaskStates
   \<and> 1 \<le> TTLSeconds last_task \<and> TTLSeconds last_task \<le> 3600
   \<and> wf_time last_time \<and> wf_time (CreatedAt last_task)
   \<and> wall_ns last_time < wall_ns (CreatedAt last_task) + TTLSeconds last_task * second
   \<and> expiry last_task = last_time
   \<and> Validate (Some last_task) last_time = Some (TaskExpired last_time last_time)"
  by (simp add: example_defs time_defs)

text \<open>
  Claim C1, amended. The time condition is read as the code computes it: \<open>now\<close> is neither
  after nor equal to the expiry \<open>CreatedAt.Add(ttl)\<close>. A task whose identifier,
  engagement, operator and approver are non-empty, whose type and state are in the
  allowed sets, whose TTL lies in \<open>[1,3600]\<close> and which meets the time condition
  validates; a task that violates exactly one of these eight conditions fails with the
  error of that condition. The time condition is \<open>now < createdAt + ttl\<close> on the instants
  whenever the TTL is in range, \<open>createdAt + ttl\<close> is not beyond the last second, and
  \<open>now\<close> and \<open>createdAt\<close> do not both carry a monotonic reading.
\<close>

theorem Validate_accepts_and_reports:
  "(ID t \<noteq> [] \<and> Engagement t \<noteq> [] \<and> Operator t \<noteq> [] \<and> ApprovedBy t \<noteq> []
      \<and> Type t \<in> set allowedTaskTypes \<and> State t \<in> set validTaskStates
      \<and> 1 \<le> TTLSeconds t \<and> TTLSeconds t \<le> 3600
      \<and> \<not> After now (expiry t) \<and> \<not> Equal now (expiry t)
     \<longrightarrow> Validate (Some t) now = None)
   \<and> (ID t = [] \<and> Engagement t \<noteq> [] \<and> Operator t \<noteq> [] \<and> ApprovedBy t \<noteq> []
      \<and> Type t \<in> set allowedTaskTypes \<and> State t \<in> set validTaskStates
      \<and> 1 \<le> TTLSeconds t \<and> TTLSeconds t \<le> 3600
      \<and> \<not> After now (expiry t) \<and> \<not> Equal now (expiry t)
     \<longrightarrow> Validate (Some t) now = Some TaskIDRequired)
   \<and> (ID t \<noteq> [] \<and> Engagement t = [] \<and> Operator t \<noteq> [] \<and> ApprovedBy t \<noteq> []
      \<and> Type t \<in> set allowedTaskTypes \<and> State t \<in> set validTaskStates
      \<and> 1 \<le> TTLSeconds t \<and> TTLSeconds t \<le> 3600
      \<and> \<not> After now (expiry t) \<and> \<not> Equal now (expiry t)
     \<longrightarrow> Validate (Some t) now = Some EngagementRequired)
   \<and> (ID t \<noteq> [] \<and> Engagement t \<noteq> [] \<and> Operator t = [] \<and> ApprovedBy t \<noteq> []
      \<and> Type t \<in> set allowedTaskTypes \<and> State t \<in> set validTaskStates
      \<and> 1 \<le> TTLSeconds t \<and> TTLSeconds t \<le> 3600
      \<and> \<not> After now (expiry t) \<and> \<not> Equal now (expiry t)
     \<longrightarrow> Validate (Some t) now = Some OperatorRequired)
   \<and> (ID t \<noteq> [] \<and> Engagement t \<noteq> [] \<and> Operator t \<noteq> [] \<and> ApprovedBy t = []
      \<and> Type t \<in> set allowedTaskTypes \<and> State t \<in> set validTaskStates
      \<and> 1 \<le> TTLSeconds t \<and> TTLSeconds t \<le> 3600
      \<and> \<not> After now (expiry t) \<and> \<not> Equal now (expiry t)
     \<longrightarrow> Validate (Some t) now = Some ApprovedByRequired)
   \<and> (ID t \<noteq> [] \<and> Engagement t \<noteq> [] \<and> Operator t \<noteq> [] \<and> ApprovedBy t \<noteq> []
      \<and> Type t \<notin> set allowedTaskTypes \<and> State t \<in> set validTaskStates
      \<and> 1 \<le> TTLSeconds t \<and> TTLSeconds t \<le> 3600
      \<and> \<not> After now (expiry t) \<and> \<not> Equal now (expiry t)
     \<longrightarrow> Validate (Some t) now = Some (UnsupportedTaskType (Type t)))
   \<and> (ID t \<noteq> [] \<and> Engagement t \<noteq> [] \<and> Operator t \<noteq> [] \<and> ApprovedBy t \<noteq> []
      \<and> Type t \<in> set allowedTaskTypes \<and> State t \<notin> set validTaskStates
      \<and> 1 \<le> TTLSeconds t \<and> TTLSeconds t \<le> 3600
      \<and> \<not> After now (expiry t) \<and> \<not> Equal now (expiry t)
     \<longrightarrow> Validate (Some t) now = Some (InvalidTaskState (State t)))
   \<and> (ID t \<noteq> [] \<and> Engagement t \<noteq> [] \<and> Operator t \<noteq> [] \<and> ApprovedBy t \<noteq> []
      \<and> Type t \<in> set allowedTaskTypes \<and> State t \<in> set validTaskStates
      \<and> \<not> (1 \<le> TTLSeconds t \<and> TTLSeconds t \<le> 3600)
      \<and> \<not> After now (expiry t) \<and> \<not> Equal now (expiry t)
     \<longrightarrow> Validate (Some t) now = Some (TTLOutOfRange (TTLSeconds t)))
   \<and> (ID t \<noteq> [] \<and> Engagement t \<noteq> [] \<and> Operator t \<noteq> [] \<and> ApprovedBy t \<noteq> []
      \<and> Type t \<in> set allowedTaskTypes \<and> State t \<in> set validTaskStates
      \<and> 1 \<le> TTLSeconds t \<and> TTLSeconds t \<le> 3600
      \<and> \<not> (\<not> After now (expiry t) \<and> \<not> Equal now (expiry t))
     \<longrightarrow> Validate (Some t) now = Some (TaskExpired (UTC (expiry t)) (UTC now)))
   \<and> (wf_time now \<and> wf_time (CreatedAt t) \<and> (mono now = None \<or> mono (CreatedAt t) = None)
      \<and> 1 \<le> TTLSeconds t \<and> TTLSeconds t \<le> 3600
      \<and> sec (CreatedAt t) + TTLSeconds t \<le> maxInt64
     \<longrightarrow> ((\<not> After now (expiry t) \<and> \<not> Equal now (expiry t))
          \<longleftrightarrow> wall_ns now < wall_ns (CreatedAt t) + TTLSeconds t * second))"
proof -
  have link: "(\<not> After now (expiry t) \<and> \<not> Equal now (expiry t))
          \<longleftrightarrow> wall_ns now < wall_ns (CreatedAt t) + TTLSeconds t * second"
    if "wf_time now" "wf_time (CreatedAt t)" "mono now = None \<or> mono (CreatedAt t) = None"
      "1 \<le> TTLSeconds t" "sec (CreatedAt t) + TTLSeconds t \<le> maxInt64"
  proof -
    from that(4) have "0 \<le> TTLSeconds t" by simp
    from expiry_compare [OF that(1-3) this that(5)] show ?thesis by auto
  qed
  show ?thesis
    using link by (simp add: minTTLSeconds_def maxTTLSeconds_def del: not_less)
qed

text \<open>
  Witness for C1: the README task validates, at \<open>now0\<close> and at a clock reading one
  second before its expiry; each of its eight single violations gets its own error; and
  at \<open>now0\<close> the time condition is the comparison of the instants.
\<close>

theorem Validate_accepts_and_reports_witness:
  "Validate (Some task001) now0 = None
   \<and> Validate (Some task001) (UTC (reading 299)) = None
   \<and> Validate (Some (task001\<lparr>ID := []\<rparr>)) now0 = Some TaskIDRequired
   \<and> Validate (Some (task001\<lparr>Engagement := []\<rparr>)) now0 = Some EngagementRequired
   \<and> Validate (Some (task001\<lparr>Operator := []\<rparr>)) now0 = Some OperatorRequired
   \<and> Validate (Some (task001\<lparr>ApprovedBy := []\<rparr>)) now0 = Some ApprovedByRequired
   \<and> Validate (Some (task001\<lparr>Type := ''malware''\<rparr>)) now0
       = Some (UnsupportedTaskType ''malware'')
   \<and> Validate (Some (task001\<lparr>State := ''approved''\<rparr>)) now0
       = Some (InvalidTaskState ''approved'')
   \<and> Validate (Some (task001\<lparr>TTLSeconds := 5000\<rparr>)) now0 = Some (TTLOutOfRange 5000)
   \<and> Validate (Some task001) (later 400) = Some (TaskExpired (later 300) (later 400))
   \<and> wf_time now0 \<and> wf_time (CreatedAt task001)
   \<and> sec (CreatedAt task001) + TTLSeconds task001 \<le> maxInt64
   \<and> \<not> After now0 (expiry task001) \<and> \<not> Equal now0 (expiry task001)
   \<and> wall_ns now0 < wall_ns (CreatedAt task001) + TTLSeconds task001 * second"
proof -
  note c1 = conjunct1
    and c2 = conjunct2 [THEN conjunct1]
    and c3 = conjunct2 [THEN conjunct2, THEN conjunct1]
    and c4 = conjunct2 [THEN conjunct2, THEN conjunct2, THEN conjunct1]
    and c5 = conjunct2 [THEN conjunct2, THEN conjunct2, THEN conjunct2, THEN conjunct1]
    and c6 = conjunct2 [THEN conjunct2, THEN conjunct2, THEN conjunct2, THEN conjunct2,
      THEN conjunct1]
    and c7 = conjunct2 [THEN conjunct2, THEN conjunct2, THEN conjunct2, THEN conjunct2,
      THEN conjunct2, THEN conjunct1]
    and c8 = conjunct2 [THEN conjunct2, THEN conjunct2, THEN conjunct2, THEN conjunct2,
      THEN conjunct2, THEN conjunct2, THEN conjunct1]
    and c9 = conjunct2 [THEN conjunct2, THEN conjunct2, THEN conjunct2, THEN conjunct2,
      THEN conjunct2, THEN conjunct2, THEN conjunct2, THEN conjunct1]
    and c10 = conjunct2 [THEN conjunct2, THEN conjunct2, THEN conjunct2, THEN conjunct2,
      THEN conjunct2, THEN conjunct2, THEN conjunct2, THEN conjunct2]
  have "Validate (Some task001) now0 = None"
    using Validate_accepts_and_reports [of task001 now0, THEN c1]
    by (simp add: example_defs time_defs)
  moreover have "Validate (Some task001) (UTC (reading 299)) = None"
    using Validate_accepts_and_reports [of task001 "UTC (reading 299)", THEN c1]
    by (simp add: example_defs time_defs)
  moreover have "Validate (Some (task001\<lparr>ID := []\<rparr>)) now0 = Some TaskIDRequired"
    using Validate_accepts_and_reports [of "task001\<lparr>ID := []\<rparr>" now0, THEN c2]
    by (simp add: example_defs time_defs)
  moreover have "Validate (Some (task001\<lparr>Engagement := []\<rparr>)) now0 = Some EngagementRequired"
    using Validate_accepts_and_reports [of "task001\<lparr>Engagement := []\<rparr>" now0, THEN c3]
    by (simp add: example_defs time_defs)
  moreover have "Validate (Some (task001\<lparr>Operator := []\<rparr>)) now0 = Some OperatorRequired"
    using Validate_accepts_and_reports [of "task001\<lparr>Operator := []\<rparr>" now0, THEN c4]
    by (simp add: example_defs time_defs)
  moreover have "Validate (Some (task001\<lparr>ApprovedBy := []\<rparr>)) now0 = Some ApprovedByRequired"
    using Validate_accepts_and_reports [of "task001\<lparr>ApprovedBy := []\<rparr>" now0, THEN c5]
    by (simp add: example_defs time_defs)
  moreover have "Validate (Some (task001\<lparr>Type := ''malware''\<rparr>)) now0
       = Some (UnsupportedTaskType ''malware'')"
    using Validate_accepts_and_reports [of "task001\<lparr>Type := ''malware''\<rparr>" now0, THEN c6]
    by (simp add: example_defs time_defs)
  moreover have "Validate (Some (task001\<lparr>State := ''approved''\<rparr>)) now0
       = Some (InvalidTaskState ''approved'')"
    using Validate_accepts_and_reports [of "task001\<lparr>State := ''approved''\<rparr>" now0, THEN c7]
    by (simp add: example_defs time_defs)
  moreover have "Validate (Some (task001\<lparr>TTLSeconds := 5000\<rparr>)) now0 = Some (TTLOutOfRange 5000)"
    using Validate_accepts_and_reports [of "task001\<lparr>TTLSeconds := 5000\<rparr>" now0, THEN c8]
    by (simp add: example_defs time_defs)
  moreover have "Validate (Some task001) (later 400) = Some (TaskExpired (later 300) (later 400))"
    using Validate_accepts_and_reports [of task001 "later 400", THEN c9]
    by (simp add: example_defs time_defs)
  moreover have "wf_time now0 \<and> wf_time (CreatedAt task001)
      \<and> sec (CreatedAt task001) + TTLSeconds task001 \<le> maxInt64
      \<and> \<not> After now0 (expiry task001) \<and> \<not> Equal now0 (expiry task001)
      \<and> wall_ns now0 < wall_ns (CreatedAt task001) + TTLSeconds task001 * second"
    using Validate_accepts_and_reports [of task001 now0, THEN c10]
    by (simp add: example_defs time_defs)
  ultimately show ?thesis by blast
qed

subsection \<open>C2: the expiry boundary\<close>




subsection \<open>C10: the nil receiver\<close>

text \<open>
  Claim C10. \<open>Validate\<close> on a nil task pointer returns an error, at every instant; no
  field of the task is read.
\<close>

theorem Validate_nil: "Validate None now = Some TaskIsNil"
  by simp

subsection \<open>C5: the size checks\<close>

text \<open>
  Claim C5. \<open>SignTask\<close> returns a key-size error for a private key that is not 64 bytes
  long and for a public key that is not 32 bytes long; \<open>VerifyTask\<close> returns a size error
  for a public key that is not 32 bytes or a signature that is not 64 bytes long;
  whatever the task, the clock, the store and the primitive are.
\<close>

theorem size_checks_first:
  "(length priv \<noteq> 64 \<longrightarrow> SignTask E h clock task priv pub = Inl InvalidPrivateKeySize)
   \<and> (length priv = 64 \<and> length pub \<noteq> 32
        \<longrightarrow> SignTask E h clock task priv pub = Inl InvalidPublicKeySize)
   \<and> (length (PublicKey st) \<noteq> 32
        \<longrightarrow> VerifyTask E h clock (Some st) = Some InvalidPublicKeySize)
   \<and> (length (PublicKey st) = 32 \<and> length (Signature st) \<noteq> 64
        \<longrightarrow> VerifyTask E h clock (Some st) = Some InvalidSignatureSize)"
  by (simp add: SignTask_def VerifyTask_def PrivateKeySize_def PublicKeySize_def
        SignatureSize_def)

text \<open>
  Witness for C5: the short private key of \<open>TestSignTask_InvalidKey\<close>, a short public
  key, and signed tasks with a short key and a short signature, on a valid task and on
  the zero task alike.
\<close>

theorem size_checks_first_witness:
  "SignTask standin [] now0 task001 ''short'' pub0 = Inl InvalidPrivateKeySize
   \<and> SignTask standin [] now0 zeroTask ''short'' pub0 = Inl InvalidPrivateKeySize
   \<and> SignTask standin [] now0 task001 priv0 ''short'' = Inl InvalidPublicKeySize
   \<and> VerifyTask standin [] now0
        (Some \<lparr>Task = task001, PublicKey = ''short'', Signature = priv0\<rparr>)
       = Some InvalidPublicKeySize
   \<and> VerifyTask standin [] now0
        (Some \<lparr>Task = zeroTask, PublicKey = pub0, Signature = ''short''\<rparr>)
       = Some InvalidSignatureSize"
  using size_checks_first [of "''short''" standin "[]" now0 task001 pub0
      "\<lparr>Task = task001, PublicKey = ''short'', Signature = priv0\<rparr>"]
    size_checks_first [of "''short''" standin "[]" now0 zeroTask pub0
      "\<lparr>Task = zeroTask, PublicKey = pub0, Signature = ''short''\<rparr>"]
    size_checks_first [of priv0 standin "[]" now0 task001 "''short''"
      "\<lparr>Task = zeroTask, PublicKey = pub0, Signature = ''short''\<rparr>"]
    priv0_length pub0_length
  by simp

subsection \<open>C3: sign, then verify\<close>

text \<open>
  Claim C3 as stated (every task that validates at signing time signs and then verifies)
  does not hold for a task that does not serialise: \<open>SignTask\<close> returns the error of
  \<open>json.Marshal\<close>, and there is no signed task to verify. A task created in the year 10000
  validates today, under a key pair that the primitive generated.
\<close>

theorem SignTask_unserialisable:
  "Validate (Some far_task) now0 = None
   \<and> \<not> After now0 (expiry far_task) \<and> \<not> Equal now0 (expiry far_task)
   \<and> wall_ns now0 < wall_ns (CreatedAt far_task) + TTLSeconds far_task * second
   \<and> GenerateKeyPair standin seed0 = Inr (pub0, priv0)
   \<and> SignTask standin [] now0 far_task priv0 pub0 = Inl (MarshalTaskFailed YearOutOfRange)
   \<and> VerifyTask standin [] now0 (signed_ptr (SignTask standin [] now0 far_task priv0 pub0))
       = Some SignedTaskIsNil"
  by (simp add: example_defs time_defs json_defs attest_defs)

text \<open>
  Claim C3, amended. For every task that validates at signing time and serialises (in
  the location of its creation time the year lies in 0 to 9999 and the zone offset is
  under 24 hours, see \<open>marshalTask_ok_iff\<close>), every private key of 64 and public key of 32
  bytes that match (the primitive signs the payload with a 64-byte signature that it
  accepts under the public key), and every clock reading at verification whose instant
  is before \<open>createdAt + ttl\<close>, \<open>VerifyTask\<close> of what \<open>SignTask\<close> returned succeeds, in
  the store the task was signed in.
\<close>

theorem sign_then_verify:
  assumes "Validate (Some task) (UTC signed_at) = None"
    and "length priv = 64" and "length pub = 32"
    and "marshalTask h task = Inr payload"
    and "length (Sign E priv payload) = 64"
    and "Verify E pub payload (Sign E priv payload)"
    and "wf_time verified_at" and "wf_time (CreatedAt task)"
    and "wall_ns verified_at < wall_ns (CreatedAt task) + TTLSeconds task * second"
  shows "VerifyTask E h verified_at (signed_ptr (SignTask E h signed_at task priv pub)) = None"
proof -
  note s = SignTask_ok [OF assms(1-4)]
  from Validate_ok_ttl [OF assms(1)]
  have ttl: "1 \<le> TTLSeconds task" "TTLSeconds task \<le> 3600" by simp_all
  from serialisable_expiry(1,2) [OF assms(4) ttl assms(7,8)] assms(9)
  have "\<not> After (UTC verified_at) (expiry task)" "\<not> Equal (UTC verified_at) (expiry task)"
    by simp_all
  with assms(1) have v: "Validate (Some task) (UTC verified_at) = None"
    by (rule Validate_still_valid)
  show ?thesis
    using assms(3-6) v
    by (simp add: s signed_ptr_def VerifyTask_def PublicKeySize_def SignatureSize_def
          del: Validate.simps)
qed

text \<open>
  Witness for C3: the README task, signed at a clock reading of \<open>time.Now()\<close> (with a
  monotonic reading, one hour east of UTC) and verified at a reading one second before
  its expiry.
\<close>

theorem sign_then_verify_witness:
  "Validate (Some task001) (UTC (reading 0)) = None \<and> length priv0 = 64 \<and> length pub0 = 32
   \<and> wf_time (reading 299) \<and> wf_time (CreatedAt task001)
   \<and> wall_ns (reading 299) < wall_ns (CreatedAt task001) + TTLSeconds task001 * second
   \<and> VerifyTask standin [] (reading 299)
        (signed_ptr (SignTask standin [] (reading 0) task001 priv0 pub0)) = None"
proof -
  obtain p where p: "marshalTask [] task001 = Inr p"
    using task001_serialises by blast
  have valid: "Validate (Some task001) (UTC (reading 0)) = None"
    by (simp add: example_defs time_defs)
  have live: "wf_time (reading 299)" "wf_time (CreatedAt task001)"
    "wall_ns (reading 299) < wall_ns (CreatedAt task001) + TTLSeconds task001 * second"
    by (simp_all add: example_defs time_defs)
  have "VerifyTask standin [] (reading 299)
        (signed_ptr (SignTask standin [] (reading 0) task001 priv0 pub0)) = None"
    using valid priv0_length pub0_length p
      standin_sign_length [OF priv0_length] standin_accepts [of priv0 p, folded pub0_def] live
    by (rule sign_then_verify)
  then show ?thesis
    using valid priv0_length pub0_length live by simp
qed

subsection \<open>C4: verification after the expiry\<close>

text \<open>
  Claim C4. \<open>VerifyTask\<close> validates the embedded task against the instant of
  verification: for every signed task that \<open>SignTask\<close> produced (so the task was valid
  then), whose signature is 64 bytes long and passes the signature check, verification at
  any clock reading whose instant is at or after \<open>createdAt + ttl\<close> fails with the expiry
  error; the signature is the one made at signing, and the expiry reported is the
  instant \<open>createdAt + ttl\<close>.
\<close>

theorem verify_after_expiry:
  assumes "SignTask E h signed_at task priv pub = Inr st"
    and "marshalTask h task = Inr payload"
    and "length (Sign E priv payload) = 64"
    and "Verify E pub payload (Sign E priv payload)"
    and "wf_time verified_at" and "wf_time (CreatedAt task)"
    and "wall_ns (CreatedAt task) + TTLSeconds task * second \<le> wall_ns verified_at"
  shows "Signature st = Sign E priv payload
       \<and> Validate (Some task) (UTC signed_at) = None
       \<and> wall_ns (expiry task) = wall_ns (CreatedAt task) + TTLSeconds task * second
       \<and> VerifyTask E h verified_at (Some st)
           = Some (Invalid (TaskExpired (UTC (expiry task)) (UTC verified_at)))"
proof -
  note r = SignTask_Inr [OF assms(1)]
  from r(4) assms(2)
  have st: "st = \<lparr>Task = task, PublicKey = pub, Signature = Sign E priv payload\<rparr>"
    by auto
  from Validate_ok_ttl [OF r(1)]
  have ttl: "1 \<le> TTLSeconds task" "TTLSeconds task \<le> 3600" by simp_all
  note e = serialisable_expiry [OF assms(2) ttl assms(5,6)]
  from e(1,2) assms(7)
  have "After (UTC verified_at) (expiry task) \<or> Equal (UTC verified_at) (expiry task)"
    by auto
  with r(1) have late: "Validate (Some task) (UTC verified_at)
        = Some (TaskExpired (UTC (expiry task)) (UTC (UTC verified_at)))"
    by (rule Validate_late)
  have u: "UTC (UTC verified_at) = UTC verified_at"
    by (simp add: UTC_def)
  show ?thesis
    using assms(2-4) r(1,3) late e(3)
    by (simp add: st u VerifyTask_def PublicKeySize_def SignatureSize_def del: Validate.simps)
qed

text \<open>
  Witness for C4, the scenario of the specification: the README task (TTL 600, created
  five minutes before \<open>now0\<close>) is signed and verifies at a clock reading at \<open>now0\<close>; 601
  seconds later the same signed task fails with the expiry error.
\<close>

theorem verify_after_expiry_witness:
  "VerifyTask standin [] (reading 0)
       (signed_ptr (SignTask standin [] (reading 0) task001 priv0 pub0)) = None
   \<and> wf_time (reading 601) \<and> wf_time (CreatedAt task001)
   \<and> wall_ns (CreatedAt task001) + TTLSeconds task001 * second \<le> wall_ns (reading 601)
   \<and> VerifyTask standin [] (reading 601)
        (signed_ptr (SignTask standin [] (reading 0) task001 priv0 pub0))
       = Some (Invalid (TaskExpired (later 300) (later 601)))"
proof -
  obtain p where p: "marshalTask [] task001 = Inr p"
    using task001_serialises by blast
  let ?st = "\<lparr>Task = task001, PublicKey = pub0, Signature = Sign standin priv0 p\<rparr>"
  have valid: "Validate (Some task001) (UTC (reading 0)) = None"
    by (simp add: example_defs time_defs)
  have s: "SignTask standin [] (reading 0) task001 priv0 pub0 = Inr ?st"
    using valid priv0_length pub0_length p by (rule SignTask_ok)
  have late: "wf_time (reading 601)" "wf_time (CreatedAt task001)"
    "wall_ns (CreatedAt task001) + TTLSeconds task001 * second \<le> wall_ns (reading 601)"
    by (simp_all add: example_defs time_defs)
  have e: "UTC (expiry task001) = later 300" "UTC (reading 601) = later 601"
    by (simp_all add: example_defs time_defs)
  have before: "VerifyTask standin [] (reading 0)
       (signed_ptr (SignTask standin [] (reading 0) task001 priv0 pub0)) = None"
    using p valid priv0_length pub0_length standin_accepts [of priv0 p, folded pub0_def]
      standin_sign_length [OF priv0_length, of p]
    by (simp add: s signed_ptr_def VerifyTask_def PublicKeySize_def SignatureSize_def
          del: Validate.simps)
  show ?thesis
    using verify_after_expiry [OF s p standin_sign_length [OF priv0_length]
        standin_accepts [of priv0 p, folded pub0_def] late] before late
    by (simp add: s signed_ptr_def e)
qed

subsection \<open>C7: the clock and the entropy source\<close>

text \<open>
  Claim C7 as stated (the operations are functions of their explicit inputs, the clock
  and the entropy source being among them) does not hold: \<open>SignTask\<close> and \<open>VerifyTask\<close>
  read the wall clock themselves and \<open>GenerateKeyPair\<close> reads the process-wide entropy
  source. With the same task, keys and signed task, two runs at different clock readings
  differ, and so do two key generations.
\<close>

theorem clock_and_entropy_implicit:
  "SignTask standin [] (reading 0) task001 priv0 pub0
     \<noteq> SignTask standin [] (reading 601) task001 priv0 pub0
   \<and> VerifyTask standin [] (reading 0)
        (signed_ptr (SignTask standin [] (reading 0) task001 priv0 pub0))
     \<noteq> VerifyTask standin [] (reading 601)
          (signed_ptr (SignTask standin [] (reading 0) task001 priv0 pub0))
   \<and> GenerateKeyPair standin (replicate 32 (CHR ''a''))
     \<noteq> GenerateKeyPair standin (replicate 32 (CHR ''b''))"
  by (simp add: example_defs time_defs json_defs attest_defs)

text \<open>
  Claim C7, amended. \<open>Validate\<close> takes the instant as an argument. \<open>SignTask\<close> and
  \<open>VerifyTask\<close> depend on the clock reading they take, but only through the expiry test:
  two runs on the same inputs agree whenever both readings are before the task's expiry
  (neither after nor equal to it, as \<open>Validate\<close> tests). \<open>GenerateKeyPair\<close> depends on
  the entropy it reads, and only on the 32 bytes of the seed.
\<close>

theorem clock_matters_only_at_expiry:
  "(\<not> After (UTC ca) (expiry task) \<and> \<not> Equal (UTC ca) (expiry task)
    \<and> \<not> After (UTC cb) (expiry task) \<and> \<not> Equal (UTC cb) (expiry task)
      \<longrightarrow> SignTask E h ca task priv pub = SignTask E h cb task priv pub)
   \<and> (\<not> After (UTC ca) (expiry (Task st)) \<and> \<not> Equal (UTC ca) (expiry (Task st))
    \<and> \<not> After (UTC cb) (expiry (Task st)) \<and> \<not> Equal (UTC cb) (expiry (Task st))
      \<longrightarrow> VerifyTask E h ca (Some st) = VerifyTask E h cb (Some st))
   \<and> (SeedSize \<le> length ea \<and> SeedSize \<le> length eb \<and> take SeedSize ea = take SeedSize eb
      \<longrightarrow> GenerateKeyPair E ea = GenerateKeyPair E eb)"
proof (intro conjI impI)
  assume "\<not> After (UTC ca) (expiry task) \<and> \<not> Equal (UTC ca) (expiry task)
    \<and> \<not> After (UTC cb) (expiry task) \<and> \<not> Equal (UTC cb) (expiry task)"
  then have "Validate (Some task) (UTC ca) = Validate (Some task) (UTC cb)"
    by (intro Validate_before_expiry_same) simp_all
  then show "SignTask E h ca task priv pub = SignTask E h cb task priv pub"
    by (simp add: SignTask_def del: Validate.simps)
next
  assume "\<not> After (UTC ca) (expiry (Task st)) \<and> \<not> Equal (UTC ca) (expiry (Task st))
    \<and> \<not> After (UTC cb) (expiry (Task st)) \<and> \<not> Equal (UTC cb) (expiry (Task st))"
  then have "Validate (Some (Task st)) (UTC ca) = Validate (Some (Task st)) (UTC cb)"
    by (intro Validate_before_expiry_same) simp_all
  then show "VerifyTask E h ca (Some st) = VerifyTask E h cb (Some st)"
    by (simp add: VerifyTask_def del: Validate.simps split: sum.splits)
next
  assume "SeedSize \<le> length ea \<and> SeedSize \<le> length eb \<and> take SeedSize ea = take SeedSize eb"
  then show "GenerateKeyPair E ea = GenerateKeyPair E eb"
    by (simp add: GenerateKeyPair_def)
qed

text \<open>
  Witness for C7: the README task signed at two clock readings one second apart, the
  signed task that \<open>SignTask\<close> returned verified at both, and two entropy reads that share
  their first 32 bytes.
\<close>

theorem clock_matters_only_at_expiry_witness:
  "\<not> After (UTC (reading 0)) (expiry task001) \<and> \<not> Equal (UTC (reading 0)) (expiry task001)
   \<and> \<not> After (UTC (reading 1)) (expiry task001) \<and> \<not> Equal (UTC (reading 1)) (expiry task001)
   \<and> SignTask standin [] (reading 0) task001 priv0 pub0
       = SignTask standin [] (reading 1) task001 priv0 pub0
   \<and> (case SignTask standin [] (reading 0) task001 priv0 pub0 of
         Inl e \<Rightarrow> False
       | Inr st \<Rightarrow>
           Task st = task001
           \<and> VerifyTask standin [] (reading 0) (Some st) = None
           \<and> VerifyTask standin [] (reading 1) (Some st) = None)
   \<and> GenerateKeyPair standin (seed0 @ ''abc'') = GenerateKeyPair standin (seed0 @ ''xyz'')"
proof -
  obtain p where p: "marshalTask [] task001 = Inr p"
    using task001_serialises by blast
  let ?st = "\<lparr>Task = task001, PublicKey = pub0, Signature = Sign standin priv0 p\<rparr>"
  have valid: "Validate (Some task001) (UTC (reading 0)) = None"
    by (simp add: example_defs time_defs)
  have s: "SignTask standin [] (reading 0) task001 priv0 pub0 = Inr ?st"
    using valid priv0_length pub0_length p by (rule SignTask_ok)
  have l: "\<not> After (UTC (reading 0)) (expiry task001)"
    "\<not> Equal (UTC (reading 0)) (expiry task001)"
    "\<not> After (UTC (reading 1)) (expiry task001)"
    "\<not> Equal (UTC (reading 1)) (expiry task001)"
    by (simp_all add: example_defs time_defs)
  have e: "SeedSize \<le> length (seed0 @ ''abc'')" "SeedSize \<le> length (seed0 @ ''xyz'')"
    "take SeedSize (seed0 @ ''abc'') = take SeedSize (seed0 @ ''xyz'')"
    by (simp_all add: SeedSize_def seed0_def)
  have v: "VerifyTask standin [] (reading 0) (Some ?st) = None"
    using p valid pub0_length standin_accepts [of priv0 p, folded pub0_def]
      standin_sign_length [OF priv0_length, of p]
    by (simp add: VerifyTask_def PublicKeySize_def SignatureSize_def del: Validate.simps)
  have r: "SignTask standin [] (reading 0) task001 priv0 pub0
        = SignTask standin [] (reading 1) task001 priv0 pub0"
    "VerifyTask standin [] (reading 0) (Some ?st) = VerifyTask standin [] (reading 1) (Some ?st)"
    "GenerateKeyPair standin (seed0 @ ''abc'') = GenerateKeyPair standin (seed0 @ ''xyz'')"
    using clock_matters_only_at_expiry [where ca = "reading 0" and cb = "reading 1"
        and task = task001 and st = ?st
        and ea = "seed0 @ ''abc''" and eb = "seed0 @ ''xyz''" and E = standin and h = "[]"
        and priv = priv0 and pub = pub0] l e
    by simp_all
  from r(2) v have v': "VerifyTask standin [] (reading 1) (Some ?st) = None"
    by simp
  from r(1) s have s': "SignTask standin [] (reading 1) task001 priv0 pub0 = Inr ?st"
    by simp
  show ?thesis
    using l r(3) v v' by (simp add: s s')
qed

subsection \<open>C6: the signed task and the caller's map\<close>

text \<open>
  Claim C6 (a signed task holds an independent copy of the task; a later change of the
  caller's task, its \<open>Params\<close> map included, changes neither the embedded task nor the
  outcome of verification) fails on the \<open>Params\<close> map. \<open>SignTask\<close> stores the struct copy
  it received, which holds the caller's map reference. The README task with the
  parameter \<open>target = 192.168.1.0/24\<close> is signed; the caller then assigns
  \<open>task.Params["target"] = "10.0.0.0/8"\<close>. The signed task's parameters and payload change
  with it, and verification of the untouched signed task turns from success into a
  signature failure.
\<close>

theorem shared_params:
  "(case SignTask standin heap001 now0 task001p priv0 pub0 of
      Inl e \<Rightarrow> False
    | Inr st \<Rightarrow>
        Params (Task st) = Params task001p
        \<and> params_of heap001 (Task st) = Some [(''target'', ''192.168.1.0/24'')]
        \<and> VerifyTask standin heap001 now0 (Some st) = None
        \<and> params_of (heap_assign heap001 0 ''target'' ''10.0.0.0/8'') (Task st)
            = Some [(''target'', ''10.0.0.0/8'')]
        \<and> marshalTask (heap_assign heap001 0 ''target'' ''10.0.0.0/8'') (Task st)
            \<noteq> marshalTask heap001 (Task st)
        \<and> VerifyTask standin (heap_assign heap001 0 ''target'' ''10.0.0.0/8'') now0 (Some st)
            = Some SignatureVerificationFailed)"
  by (simp add: example_defs time_defs json_defs attest_defs)

subsection \<open>C8: the round trip through the external representation\<close>

text \<open>
  \<open>TestMarshalUnmarshalConsistency\<close> in the model: the README task with its parameter is
  signed, serialised and deserialised (the decoder allocates a new map object, at
  address 1), and the result verifies.
\<close>

lemma roundtrip_of_test_task:
  "(case SignTask standin heap001 now0 task001p priv0 pub0 of
      Inl e \<Rightarrow> False
    | Inr st \<Rightarrow>
        (case marshalSignedTask heap001 st of
           Inl e \<Rightarrow> False
         | Inr doc \<Rightarrow>
             (case unmarshalSignedTask heap001 doc of
                Inl e \<Rightarrow> False
              | Inr hs \<Rightarrow>
                  Params (Task (snd hs)) = Some 1
                  \<and> params_of (fst hs) (Task (snd hs)) = params_of heap001 (Task st)
                  \<and> (snd hs)\<lparr>Task := (Task (snd hs))\<lparr>Params := Some 0\<rparr>\<rparr> = st
                  \<and> VerifyTask standin (fst hs) now0 (Some (snd hs)) = None)))"
  by (simp add: example_defs time_defs json_defs unjson_defs attest_defs)

text \<open>
  Claim C8 (a signed task that is serialised and deserialised verifies as the original
  does) fails for a string that is not UTF-8. The encoder of Go 1.22 writes a byte that
  starts no UTF-8 sequence as the escape of U+FFFD; the decoder reads that escape as the
  three bytes of U+FFFD; encoded again, those three bytes are copied. The payload
  recomputed after the round trip differs from the signed one. The README task with the
  identifier \<open>0xFF\<close> is signed and verifies; after \<open>json.Marshal\<close> and \<open>json.Unmarshal\<close> of
  the signed task, with the same key and signature bytes, verification fails.
\<close>

theorem roundtrip_breaks_signature:
  "(case SignTask standin [] now0 task_ff priv0 pub0 of
      Inl e \<Rightarrow> False
    | Inr st \<Rightarrow>
        VerifyTask standin [] now0 (Some st) = None
        \<and> (case marshalSignedTask [] st of
              Inl e \<Rightarrow> False
            | Inr doc \<Rightarrow>
                (case unmarshalSignedTask [] doc of
                   Inl e \<Rightarrow> False
                 | Inr hs \<Rightarrow>
                     ID (Task (snd hs)) = replacement
                     \<and> PublicKey (snd hs) = PublicKey st
                     \<and> Signature (snd hs) = Signature st
                     \<and> marshalTask (fst hs) (Task (snd hs)) \<noteq> marshalTask [] (Task st)
                     \<and> VerifyTask standin (fst hs) now0 (Some (snd hs))
                         = Some SignatureVerificationFailed)))"
  by (simp add: example_defs time_defs json_defs unjson_defs attest_defs)

text \<open>
  The same happens, whatever the string encoder does, for a creation time in a location
  whose offset is no whole number of minutes. At 30 seconds east of UTC the encoder
  writes the local time with the zone \<open>+00:00\<close>; the decoder reads an instant 30 seconds
  later, in a zone of offset 0, which is written with the zone \<open>Z\<close>.
\<close>

lemma roundtrip_of_zone_task:
  "(case SignTask standin [] now0 zone_task priv0 pub0 of
      Inl e \<Rightarrow> False
    | Inr st \<Rightarrow>
        VerifyTask standin [] now0 (Some st) = None
        \<and> (case marshalSignedTask [] st of
              Inl e \<Rightarrow> False
            | Inr doc \<Rightarrow>
                (case unmarshalSignedTask [] doc of
                   Inl e \<Rightarrow> False
                 | Inr hs \<Rightarrow>
                     CreatedAt (Task (snd hs)) = later (- 270)
                     \<and> PublicKey (snd hs) = PublicKey st
                     \<and> Signature (snd hs) = Signature st
                     \<and> marshalTask (fst hs) (Task (snd hs)) \<noteq> marshalTask [] (Task st)
                     \<and> VerifyTask standin (fst hs) now0 (Some (snd hs))
                         = Some SignatureVerificationFailed)))"
  by (simp add: example_defs time_defs json_defs unjson_defs attest_defs)

subsection \<open>C9: the audit chain\<close>

text \<open>
  Claim C9 as stated (a change of any single field of a record makes \<open>verifyChain\<close>
  return false) does not hold. \<open>verifyChain\<close> recomputes a chain hash from the previous
  record's stored chain hash and does not read the record's own \<open>prev_hash\<close>, and
  \<open>task_id\<close> is no part of the digest input: in a log of three appends, forging either in
  the second record leaves the chain verifying. A change of a field that the digest
  covers is missed when the two inputs have the same digest: under the two-digit
  stand-in digest, the action \<open>simulate_login\<close> can be replaced by \<open>simulate_nigol\<close>.
\<close>

theorem tampering_not_detected:
  "changes (SetPrevHash ''forged'') (log3 ! 1)
   \<and> verifyChain short_scheme (log3 [1 := mutate (SetPrevHash ''forged'') (log3 ! 1)])
   \<and> changes (SetTaskID ''task-999'') (log3 ! 1)
   \<and> verifyChain short_scheme (log3 [1 := mutate (SetTaskID ''task-999'') (log3 ! 1)])
   \<and> changes (SetAction ''simulate_nigol'') (log3 ! 1)
   \<and> verifyChain short_scheme (log3 [1 := mutate (SetAction ''simulate_nigol'') (log3 ! 1)])"
  by (simp add: audit_defs)

text \<open>
  Claim C9, amended. A log produced by appends alone verifies. Each of its records has
  the chain hash \<open>Digest(previous chain hash, sequence, timestamp, operator, engagement,
  action, result hash, authorization)\<close>, with the sentinel as the previous hash of the
  first. After a change of one field of one record the log still verifies exactly when
  the sequence number and the chain hash are as before and the changed digest input has
  the digest of the original one; a real change of timestamp, operator, engagement,
  action, result hash or authorization changes the input. So a change of the sequence
  number or of the chain hash is always detected, a change of \<open>task_id\<close> or \<open>prev_hash\<close>
  never is, and a change of one of those six fields is detected unless the two inputs
  collide under the digest.
  Removing any record but the last is detected. For a digest with finitely many values
  a collision exists: some log of one append has a changed authorization that is not
  detected.
\<close>

theorem chain_detects_tampering:
  "verifyChain A (built A operator engagement es)
   \<and> (i < length (built A operator engagement es) \<longrightarrow>
        chain_hash (built A operator engagement es ! i)
          = Digest A (chain_input A (prev_of A (built A operator engagement es) i)
                        (built A operator engagement es ! i)))
   \<and> (i < length (built A operator engagement es) \<longrightarrow>
        (verifyChain A ((built A operator engagement es)
                          [i := mutate c (built A operator engagement es ! i)])
         \<longleftrightarrow> sequence (mutate c (built A operator engagement es ! i))
                = sequence (built A operator engagement es ! i)
             \<and> chain_hash (mutate c (built A operator engagement es ! i))
                = chain_hash (built A operator engagement es ! i)
             \<and> Digest A (chain_input A (prev_of A (built A operator engagement es) i)
                           (mutate c (built A operator engagement es ! i)))
                = Digest A (chain_input A (prev_of A (built A operator engagement es) i)
                             (built A operator engagement es ! i))))
   \<and> (chained c \<and> changes c r \<and> sequence (mutate c r) = sequence r
        \<and> chain_hash (mutate c r) = chain_hash r \<longrightarrow>
        chain_input A p (mutate c r) \<noteq> chain_input A p r)
   \<and> (i < length (built A operator engagement es)
        \<and> n \<noteq> sequence (built A operator engagement es ! i) \<longrightarrow>
        \<not> verifyChain A ((built A operator engagement es)
                            [i := mutate (SetSequence n) (built A operator engagement es ! i)]))
   \<and> (i < length (built A operator engagement es)
        \<and> s \<noteq> chain_hash (built A operator engagement es ! i) \<longrightarrow>
        \<not> verifyChain A ((built A operator engagement es)
                            [i := mutate (SetChainHash s) (built A operator engagement es ! i)]))
   \<and> (i < length (built A operator engagement es) \<and> \<not> chained c \<longrightarrow>
        verifyChain A ((built A operator engagement es)
                         [i := mutate c (built A operator engagement es ! i)]))
   \<and> (Suc i < length (built A operator engagement es) \<longrightarrow>
        \<not> verifyChain A (take i (built A operator engagement es)
                           @ drop (Suc i) (built A operator engagement es)))
   \<and> (finite (range (Digest A)) \<longrightarrow>
        (\<exists>a b. changes (SetAuthorization b)
                  (built A operator engagement [(now, act, payload, a, taskID)] ! 0)
           \<and> verifyChain A ((built A operator engagement [(now, act, payload, a, taskID)])
                 [0 := mutate (SetAuthorization b)
                        (built A operator engagement [(now, act, payload, a, taskID)] ! 0)])))"
proof -
  let ?B = "built A operator engagement es"
  note ok = built_verifies [of A operator engagement es]
  have 1: "verifyChain A ?B" by (rule ok)
  have 2: "i < length ?B \<longrightarrow>
      chain_hash (?B ! i) = Digest A (chain_input A (prev_of A ?B i) (?B ! i))"
    using verifyChain_nth [OF ok] by simp
  have 3: "i < length ?B \<longrightarrow>
      (verifyChain A (?B[i := mutate c (?B ! i)])
       \<longleftrightarrow> sequence (mutate c (?B ! i)) = sequence (?B ! i)
           \<and> chain_hash (mutate c (?B ! i)) = chain_hash (?B ! i)
           \<and> Digest A (chain_input A (prev_of A ?B i) (mutate c (?B ! i)))
              = Digest A (chain_input A (prev_of A ?B i) (?B ! i)))"
    using change_verifies_iff [OF ok] by blast
  have 4: "chained c \<and> changes c r \<and> sequence (mutate c r) = sequence r
        \<and> chain_hash (mutate c r) = chain_hash r \<longrightarrow>
        chain_input A p (mutate c r) \<noteq> chain_input A p r"
    using covered_change by blast
  have 5: "i < length ?B \<and> n \<noteq> sequence (?B ! i) \<longrightarrow>
        \<not> verifyChain A (?B[i := mutate (SetSequence n) (?B ! i)])"
    using change_verifies_iff [OF ok, of i "SetSequence n"] by auto
  have 6: "i < length ?B \<and> s \<noteq> chain_hash (?B ! i) \<longrightarrow>
        \<not> verifyChain A (?B[i := mutate (SetChainHash s) (?B ! i)])"
    using change_verifies_iff [OF ok, of i "SetChainHash s"] by auto
  have 7: "i < length ?B \<and> \<not> chained c \<longrightarrow> verifyChain A (?B[i := mutate c (?B ! i)])"
    using change_verifies_iff [OF ok, of i c]
      uncovered_change [of c "?B ! i" A "prev_of A ?B i"] by auto
  have 8: "Suc i < length ?B \<longrightarrow> \<not> verifyChain A (take i ?B @ drop (Suc i) ?B)"
    using removal_detected [OF ok] by blast
  have 9: "finite (range (Digest A)) \<longrightarrow>
        (\<exists>a b. changes (SetAuthorization b)
                  (built A operator engagement [(now, act, payload, a, taskID)] ! 0)
           \<and> verifyChain A ((built A operator engagement [(now, act, payload, a, taskID)])
                 [0 := mutate (SetAuthorization b)
                        (built A operator engagement [(now, act, payload, a, taskID)] ! 0)]))"
    using bounded_digest_undetected by blast
  from 1 2 3 4 5 6 7 8 9 show ?thesis by (intro conjI)
qed

text \<open>
  Witness for C9, with the two-digit stand-in digest: the log of three appends verifies;
  in its second record a different result hash, sequence number or chain hash is
  detected and a different \<open>task_id\<close> is not; the removal of that record is detected; and
  the digest, having finitely many values, has an undetected change of authorization.
\<close>

theorem chain_detects_tampering_witness:
  "1 < length log3 \<and> finite (range (Digest short_scheme))
   \<and> verifyChain short_scheme log3
   \<and> chain_hash (log3 ! 1)
       = Digest short_scheme (chain_input short_scheme (chain_hash (log3 ! 0)) (log3 ! 1))
   \<and> changes (SetResultHash ''00'') (log3 ! 1)
   \<and> \<not> verifyChain short_scheme (log3 [1 := mutate (SetResultHash ''00'') (log3 ! 1)])
   \<and> \<not> verifyChain short_scheme (log3 [1 := mutate (SetSequence 7) (log3 ! 1)])
   \<and> \<not> verifyChain short_scheme (log3 [1 := mutate (SetChainHash ''zz'') (log3 ! 1)])
   \<and> verifyChain short_scheme (log3 [1 := mutate (SetTaskID ''task-999'') (log3 ! 1)])
   \<and> \<not> verifyChain short_scheme (take 1 log3 @ drop (Suc 1) log3)
   \<and> (\<exists>a b. changes (SetAuthorization b)
                 (built short_scheme ''op-alice'' ''eng-001''
                    [(''2026-11-02T10:00:00Z'', ''recon_scan'', ''hosts=5'', a, ''task-001'')] ! 0)
          \<and> verifyChain short_scheme
                ((built short_scheme ''op-alice'' ''eng-001''
                    [(''2026-11-02T10:00:00Z'', ''recon_scan'', ''hosts=5'', a, ''task-001'')])
                 [0 := mutate (SetAuthorization b)
                   (built short_scheme ''op-alice'' ''eng-001''
                      [(''2026-11-02T10:00:00Z'', ''recon_scan'', ''hosts=5'', a, ''task-001'')]
                    ! 0)]))"
proof -
  note T = chain_detects_tampering [where A = short_scheme and operator = "''op-alice''"
      and engagement = "''eng-001''" and es = events3 and i = 1 and n = 7 and s = "''zz''"
      and now = "''2026-11-02T10:00:00Z''" and act = "''recon_scan''"
      and payload = "''hosts=5''" and taskID = "''task-001''", folded log3_def]
  have len: "1 < length log3" "Suc 1 < length log3"
    by (simp_all add: log3_length)
  have fin: "finite (range (Digest short_scheme))"
    by (rule short_digest_bounded)
  have p: "prev_of short_scheme log3 1 = chain_hash (log3 ! 0)"
    by (simp add: prev_of_def)
  have ch: "changes (SetResultHash ''00'') (log3 ! 1)"
    by (simp add: audit_defs)
  have d: "Digest short_scheme (chain_input short_scheme (prev_of short_scheme log3 1)
               (mutate (SetResultHash ''00'') (log3 ! 1)))
         \<noteq> Digest short_scheme (chain_input short_scheme (prev_of short_scheme log3 1)
               (log3 ! 1))"
    by (simp add: audit_defs)
  have v: "7 \<noteq> sequence (log3 ! 1)" "''zz'' \<noteq> chain_hash (log3 ! 1)"
    by (simp_all add: audit_defs)
  have 1: "verifyChain short_scheme log3"
    using T [where c = "SetResultHash ''00''"] by blast
  have 2: "chain_hash (log3 ! 1)
       = Digest short_scheme (chain_input short_scheme (chain_hash (log3 ! 0)) (log3 ! 1))"
    using T [where c = "SetResultHash ''00''"] len(1) p by simp
  have 3: "\<not> verifyChain short_scheme (log3 [1 := mutate (SetResultHash ''00'') (log3 ! 1)])"
    using T [where c = "SetResultHash ''00''"] len(1) d by blast
  have 4: "\<not> verifyChain short_scheme (log3 [1 := mutate (SetSequence 7) (log3 ! 1)])"
    using T [where c = "SetResultHash ''00''"] len(1) v(1) by blast
  have 5: "\<not> verifyChain short_scheme (log3 [1 := mutate (SetChainHash ''zz'') (log3 ! 1)])"
    using T [where c = "SetResultHash ''00''"] len(1) v(2) by blast
  have 6: "verifyChain short_scheme (log3 [1 := mutate (SetTaskID ''task-999'') (log3 ! 1)])"
  proof -
    have "\<not> chained (SetTaskID ''task-999'')" by simp
    with T [where c = "SetTaskID ''task-999''"] len(1) show ?thesis by blast
  qed
  have 7: "\<not> verifyChain short_scheme (take 1 log3 @ drop (Suc 1) log3)"
    using T [where c = "SetResultHash ''00''"] len(2) by blast
  have 8: "\<exists>a b. changes (SetAuthorization b)
                 (built short_scheme ''op-alice'' ''eng-001''
                    [(''2026-11-02T10:00:00Z'', ''recon_scan'', ''hosts=5'', a, ''task-001'')] ! 0)
          \<and> verifyChain short_scheme
                ((built short_scheme ''op-alice'' ''eng-001''
                    [(''2026-11-02T10:00:00Z'', ''recon_scan'', ''hosts=5'', a, ''task-001'')])
                 [0 := mutate (SetAuthorization b)
                   (built short_scheme ''op-alice'' ''eng-001''
                      [(''2026-11-02T10:00:00Z'', ''recon_scan'', ''hosts=5'', a, ''task-001'')]
                    ! 0)])"
    using T [where c = "SetResultHash ''00''"] fin by blast
  from len(1) fin 1 2 ch 3 4 5 6 7 8 show ?thesis by (intro conjI)
qed

end
